theory Spec2Isabelle
  imports
    Complex_Main
    "HOL-Library.Char_ord"
    "HOL-Library.List_Lexorder"
    "HOL-Library.Product_Lexorder"
    "HOL-Library.Sublist"
begin

section \<open>Data model\<close>

text \<open>
  The three event tables of \<^verbatim>\<open>app.py\<close> are pandas data frames read from CSV: a data
  frame is modelled as the list of its rows, a row as a record of its columns.
  A calendar date is the triple (year, month, day), compared lexicographically as
  \<^verbatim>\<open>datetime.date\<close> is; strings are compared lexicographically by character code,
  as Python does. Counts are numpy \<^verbatim>\<open>int64\<close> columns, modelled as \<open>int\<close>: the counts and
  their sums are taken to stay below \<^verbatim>\<open>2**63\<close>, where \<^verbatim>\<open>int64\<close> arithmetic does not wrap.
  The columns \<^verbatim>\<open>bio_age_17_\<close> and \<^verbatim>\<open>demo_age_17_\<close> are written
  \<open>bio_age_17_plus\<close> and \<open>demo_age_17_plus\<close>: a name cannot end in an underscore.
\<close>

type_synonym date = "nat \<times> nat \<times> nat"

record dist =
  district :: string

record geo = dist +
  state :: string

record event = geo +
  date :: date

record biometric_row = event +
  bio_age_5_17 :: int
  bio_age_17_plus :: int

record enrolment_row = event +
  age_0_5 :: int
  age_5_17 :: int
  age_18_greater :: int

record demographic_row = event +
  demo_age_5_17 :: int
  demo_age_17_plus :: int

text \<open>
  The two sidebar widgets: \<^verbatim>\<open>date_range\<close> is the pair (start, end) that
  \<^verbatim>\<open>apply_filters\<close> unpacks, \<^verbatim>\<open>state\<close> the entry chosen in the select box
  (named \<open>sel_state\<close> here, \<open>state\<close> being the column).
\<close>

record filters =
  date_range :: "date \<times> date"
  sel_state :: string

section \<open>Filters\<close>

text \<open>
  \<^verbatim>\<open>
  def apply_filters(df):
      start, end = date_range
      df = df[(df["date"].dt.date >= start) & (df["date"].dt.date <= end)]
      if state != "All":
          df = df[df["state"] == state]
      return df
  \<close>
  Indexing a frame with a boolean mask keeps the rows where the mask holds, in order:
  \<open>date_mask\<close> is the first indexing, \<open>state_mask\<close> the second.
\<close>

definition date_mask :: "filters \<Rightarrow> 'a event_scheme list \<Rightarrow> 'a event_scheme list" where
  "date_mask f df =
     (let (start, end') = date_range f
      in filter (\<lambda>r. date r \<ge> start \<and> date r \<le> end') df)"

definition state_mask :: "filters \<Rightarrow> 'a event_scheme list \<Rightarrow> 'a event_scheme list" where
  "state_mask f df = filter (\<lambda>r. state r = sel_state f) df"

definition apply_filters :: "filters \<Rightarrow> 'a event_scheme list \<Rightarrow> 'a event_scheme list" where
  "apply_filters f df =
     (let df1 = date_mask f df
      in if sel_state f \<noteq> ''All'' then state_mask f df1 else df1)"

section \<open>Floating-point values\<close>

text \<open>
  Ratios and statistics are numpy \<^verbatim>\<open>float64\<close> values. A finite value is modelled
  by the real number it approximates (rounding and the sign of zero are not modelled);
  the special values are kept, because pandas and numpy divide by zero without raising:
  \<^verbatim>\<open>0/0\<close> is NaN and \<^verbatim>\<open>x/0\<close> is an infinity.
\<close>

datatype fl = Fin real | PInf | NInf | NaN

fun fdiv :: "fl \<Rightarrow> fl \<Rightarrow> fl" where
  "fdiv (Fin a) (Fin b) =
     (if b = 0 then (if a = 0 then NaN else if a > 0 then PInf else NInf) else Fin (a / b))"
| "fdiv (Fin a) PInf = Fin 0"
| "fdiv (Fin a) NInf = Fin 0"
| "fdiv PInf (Fin b) = (if b < 0 then NInf else PInf)"
| "fdiv NInf (Fin b) = (if b < 0 then PInf else NInf)"
| "fdiv PInf PInf = NaN"
| "fdiv PInf NInf = NaN"
| "fdiv NInf PInf = NaN"
| "fdiv NInf NInf = NaN"
| "fdiv NaN _ = NaN"
| "fdiv _ NaN = NaN"

text \<open>True division of two integer columns or integer scalars.\<close>

definition idiv :: "int \<Rightarrow> int \<Rightarrow> fl" where
  "idiv a b = fdiv (Fin (real_of_int a)) (Fin (real_of_int b))"

text \<open>\<^verbatim>\<open>x > c\<close> and \<^verbatim>\<open>x >= y\<close>: every comparison with NaN is false.\<close>

fun fgt :: "fl \<Rightarrow> real \<Rightarrow> bool" where
  "fgt (Fin a) c = (a > c)"
| "fgt PInf c = True"
| "fgt _ c = False"

fun fge :: "fl \<Rightarrow> fl \<Rightarrow> bool" where
  "fge NaN _ = False"
| "fge _ NaN = False"
| "fge PInf _ = True"
| "fge _ NInf = True"
| "fge (Fin a) (Fin b) = (a \<ge> b)"
| "fge _ _ = False"

definition isna :: "fl \<Rightarrow> bool" where
  "isna x = (x = NaN)"

section \<open>Data-frame operations\<close>

text \<open>
  \<^verbatim>\<open>df.groupby(keys, as_index=False)\<close>: one group per distinct key, the groups in
  ascending key order (\<^verbatim>\<open>sort=True\<close> is the default), each group holding its rows in
  their order in \<open>df\<close>.
\<close>

definition groupby :: "('r \<Rightarrow> 'k::linorder) \<Rightarrow> 'r list \<Rightarrow> ('k \<times> 'r list) list" where
  "groupby key df = map (\<lambda>k. (k, filter (\<lambda>r. key r = k) df)) (sort (remdups (map key df)))"

text \<open>
  \<^verbatim>\<open>left.merge(right, on=keys)\<close>, an inner join: every left row, in the order of the
  left frame, paired with each right row of the same key.
\<close>

definition merge_on :: "('a \<Rightarrow> 'k) \<Rightarrow> ('b \<Rightarrow> 'k) \<Rightarrow> 'a list \<Rightarrow> 'b list \<Rightarrow> ('a \<times> 'b) list" where
  "merge_on ka kb left right =
     concat (map (\<lambda>l. map (\<lambda>r. (l, r)) (filter (\<lambda>r. kb r = ka l) right)) left)"

text \<open>
  \<^verbatim>\<open>df.sort_values(col, ascending=False)\<close> on a float column: descending, NaN last.
  pandas does not fix the order of rows with equal values; the model keeps them in
  their order in \<open>df\<close>, and no theorem below depends on that choice.
\<close>

fun insert_desc :: "('r \<Rightarrow> fl) \<Rightarrow> 'r \<Rightarrow> 'r list \<Rightarrow> 'r list" where
  "insert_desc key x [] = [x]"
| "insert_desc key x (y # ys) =
     (if key y = NaN \<or> fge (key x) (key y) then x # y # ys else y # insert_desc key x ys)"

definition sort_values_desc :: "('r \<Rightarrow> fl) \<Rightarrow> 'r list \<Rightarrow> 'r list" where
  "sort_values_desc key df = foldr (insert_desc key) df []"

text \<open>\<^verbatim>\<open>df.head(10)\<close>.\<close>

definition head10 :: "'r list \<Rightarrow> 'r list" where
  "head10 df = take 10 df"

section \<open>District-level aggregation\<close>

text \<open>
  \<^verbatim>\<open>
  demo_d = demographic_f.groupby(["state", "district"], as_index=False)[demo_cols].sum()
  bio_d = biometric_f.groupby(["state", "district"], as_index=False)[bio_cols].sum()
  enr_d = enrolment_f.groupby(["state", "district"], as_index=False)[enr_cols].sum()
  \<close>
  A grouped sum is the list of its rows (key, column sums), in key order.
\<close>

definition geo_key :: "'a geo_scheme \<Rightarrow> string \<times> string" where
  "geo_key r = (state r, district r)"

definition demo_d :: "demographic_row list \<Rightarrow> ((string \<times> string) \<times> int \<times> int) list" where
  "demo_d demographic_f =
     map (\<lambda>(k, g). (k, sum_list (map demo_age_5_17 g), sum_list (map demo_age_17_plus g)))
       (groupby geo_key demographic_f)"

definition bio_d :: "biometric_row list \<Rightarrow> ((string \<times> string) \<times> int \<times> int) list" where
  "bio_d biometric_f =
     map (\<lambda>(k, g). (k, sum_list (map bio_age_5_17 g), sum_list (map bio_age_17_plus g)))
       (groupby geo_key biometric_f)"

definition enr_d :: "enrolment_row list \<Rightarrow> ((string \<times> string) \<times> int \<times> int \<times> int) list" where
  "enr_d enrolment_f =
     map (\<lambda>(k, g). (k, sum_list (map age_0_5 g), sum_list (map age_5_17 g),
                       sum_list (map age_18_greater g)))
       (groupby geo_key enrolment_f)"

text \<open>
  \<^verbatim>\<open>
  merged = demo_d.merge(bio_d, on=["state", "district"]).merge(enr_d, on=["state", "district"])
  merged["population"] = merged["demo_age_5_17"] + merged["demo_age_17_"]
  merged["biometrics"] = merged["bio_age_5_17"] + merged["bio_age_17_"]
  merged["enrolments"] = merged["age_0_5"] + merged["age_5_17"] + merged["age_18_greater"]
  merged = merged[merged["population"] > 10_000]
  \<close>
  The summed columns of the joined table carry the prefix \<open>d_\<close>, a record field name
  being global in the theory.
\<close>

record joined_row = geo +
  d_demo_age_5_17 :: int
  d_demo_age_17_plus :: int
  d_bio_age_5_17 :: int
  d_bio_age_17_plus :: int
  d_age_0_5 :: int
  d_age_5_17 :: int
  d_age_18_greater :: int

record pop_row = joined_row +
  population :: int

record pop_bio_row = pop_row +
  biometrics :: int

record merged_row = pop_bio_row +
  enrolments :: int

definition merge_d :: "((string \<times> string) \<times> int \<times> int) list
    \<Rightarrow> ((string \<times> string) \<times> int \<times> int) list
    \<Rightarrow> ((string \<times> string) \<times> int \<times> int \<times> int) list \<Rightarrow> joined_row list" where
  "merge_d dd bd ed =
     map (\<lambda>(((k, d1, d2), (kb, b1, b2)), (ke, e1, e2, e3)).
            \<lparr>district = snd k, state = fst k,
             d_demo_age_5_17 = d1, d_demo_age_17_plus = d2,
             d_bio_age_5_17 = b1, d_bio_age_17_plus = b2,
             d_age_0_5 = e1, d_age_5_17 = e2, d_age_18_greater = e3\<rparr>)
       (merge_on (\<lambda>(d, b). fst d) fst (merge_on fst fst dd bd) ed)"

text \<open>The three column assignments: each adds its column to every row.\<close>

definition set_population :: "joined_row list \<Rightarrow> pop_row list" where
  "set_population m =
     map (\<lambda>r. joined_row.extend r
            (pop_row.fields (d_demo_age_5_17 r + d_demo_age_17_plus r))) m"

definition set_biometrics :: "pop_row list \<Rightarrow> pop_bio_row list" where
  "set_biometrics m =
     map (\<lambda>r. pop_row.extend r
            (pop_bio_row.fields (d_bio_age_5_17 r + d_bio_age_17_plus r))) m"

definition set_enrolments :: "pop_bio_row list \<Rightarrow> merged_row list" where
  "set_enrolments m =
     map (\<lambda>r. pop_bio_row.extend r
            (merged_row.fields (d_age_0_5 r + d_age_5_17 r + d_age_18_greater r))) m"

definition population_floor :: "merged_row list \<Rightarrow> merged_row list" where
  "population_floor m = filter (\<lambda>r. population r > 10000) m"

definition joined :: "demographic_row list \<Rightarrow> biometric_row list \<Rightarrow> enrolment_row list
    \<Rightarrow> merged_row list" where
  "joined demographic_f biometric_f enrolment_f =
     set_enrolments (set_biometrics (set_population
       (merge_d (demo_d demographic_f) (bio_d biometric_f) (enr_d enrolment_f))))"

definition merged :: "demographic_row list \<Rightarrow> biometric_row list \<Rightarrow> enrolment_row list
    \<Rightarrow> merged_row list" where
  "merged demographic_f biometric_f enrolment_f =
     population_floor (joined demographic_f biometric_f enrolment_f)"

section \<open>Insight 1: biometric intensity index\<close>

text \<open>
  \<^verbatim>\<open>
  national_rate = merged["biometrics"].sum() / merged["population"].sum()
  merged["biometric_intensity_index"] = (
      (merged["biometrics"] / merged["population"]) / national_rate
  )
  top_districts = merged.sort_values(
      "biometric_intensity_index", ascending=False
  ).head(10)
  \<close>
\<close>

record hub_row = merged_row +
  biometric_intensity_index :: fl

definition national_rate :: "merged_row list \<Rightarrow> fl" where
  "national_rate m = idiv (sum_list (map biometrics m)) (sum_list (map population m))"

definition with_intensity :: "merged_row list \<Rightarrow> hub_row list" where
  "with_intensity m =
     map (\<lambda>r. merged_row.extend r
            (hub_row.fields (fdiv (idiv (biometrics r) (population r)) (national_rate m)))) m"

definition top_districts :: "merged_row list \<Rightarrow> hub_row list" where
  "top_districts m = head10 (sort_values_desc biometric_intensity_index (with_intensity m))"

section \<open>Insight 2: state-level usage\<close>

text \<open>
  \<^verbatim>\<open>
  state_agg = merged.groupby("state", as_index=False)[["population", "biometrics"]].sum()
  state_agg["biometric_per_capita"] = state_agg["biometrics"] / state_agg["population"]
  state_agg = state_agg.dropna()
  ... state_agg.sort_values("biometric_per_capita", ascending=False).head(10)
  \<close>
\<close>

record state_row =
  s_state :: string
  s_population :: int
  s_biometrics :: int
  biometric_per_capita :: fl

definition state_agg :: "merged_row list \<Rightarrow> state_row list" where
  "state_agg m =
     filter (\<lambda>r. \<not> isna (biometric_per_capita r))
       (map (\<lambda>(k, g).
          let p = sum_list (map population g); b = sum_list (map biometrics g)
          in \<lparr>s_state = k, s_population = p, s_biometrics = b,
              biometric_per_capita = idiv b p\<rparr>)
        (groupby state m))"

definition top_states :: "merged_row list \<Rightarrow> state_row list" where
  "top_states m = head10 (sort_values_desc biometric_per_capita (state_agg m))"

section \<open>Insight 3: growth rate\<close>

text \<open>
  \<^verbatim>\<open>
  bio_month = biometric_f.copy()
  bio_month["month"] = bio_month["date"].dt.to_period("M").dt.to_timestamp()
  monthly = bio_month.groupby(["district", "month"], as_index=False)[bio_cols].sum()
  monthly["biometrics_total"] = monthly[bio_cols].sum(axis=1)
  \<close>
  The month of a date is the first day of its month. The column \<^verbatim>\<open>month\<close> of
  \<^verbatim>\<open>bio_month\<close> is used as a grouping key only, so the model groups by the month
  of the date; the summed columns carry the prefix \<open>m_\<close>.
\<close>

definition month_of :: "date \<Rightarrow> date" where
  "month_of d = (case d of (y, m, _) \<Rightarrow> (y, m, 1))"

record monthly_row = dist +
  month :: date
  m_bio_age_5_17 :: int
  m_bio_age_17_plus :: int
  biometrics_total :: int

definition monthly :: "biometric_row list \<Rightarrow> monthly_row list" where
  "monthly biometric_f =
     map (\<lambda>(k, g).
        let b1 = sum_list (map bio_age_5_17 g); b2 = sum_list (map bio_age_17_plus g)
        in \<lparr>district = fst k, month = snd k, m_bio_age_5_17 = b1, m_bio_age_17_plus = b2,
            biometrics_total = b1 + b2\<rparr>)
       (groupby (\<lambda>r. (district r, month_of (date r))) biometric_f)"

text \<open>
  \<^verbatim>\<open>
  trend = monthly.groupby("district").agg(
      first_val=("biometrics_total", "first"),
      last_val=("biometrics_total", "last"),
  )
  trend = trend[trend["first_val"] > 0]
  trend["growth_rate"] = (trend["last_val"] - trend["first_val"]) / trend["first_val"]
  trend = trend.sort_values("growth_rate", ascending=False).head(10)
  \<close>
  \<^verbatim>\<open>first\<close> and \<^verbatim>\<open>last\<close> take the value of the first and of the last row of the
  group, in the order of \<^verbatim>\<open>monthly\<close>; a group is never empty.
\<close>

record trend_row = dist +
  first_val :: int
  last_val :: int

record growth_row = trend_row +
  growth_rate :: fl

definition trend_agg :: "monthly_row list \<Rightarrow> trend_row list" where
  "trend_agg mo =
     map (\<lambda>(k, g). \<lparr>district = k, first_val = biometrics_total (hd g),
                      last_val = biometrics_total (last g)\<rparr>)
       (groupby district mo)"

definition trend_growth :: "monthly_row list \<Rightarrow> growth_row list" where
  "trend_growth mo =
     map (\<lambda>t. trend_row.extend t
            (growth_row.fields (idiv (last_val t - first_val t) (first_val t))))
       (filter (\<lambda>t. first_val t > 0) (trend_agg mo))"

definition trend :: "monthly_row list \<Rightarrow> growth_row list" where
  "trend mo = head10 (sort_values_desc growth_rate (trend_growth mo))"

section \<open>Insight 4: anomaly detection\<close>

text \<open>
  \<^verbatim>\<open>
  monthly["z_score"] = monthly.groupby("district")["biometrics_total"].transform(
      lambda x: zscore(x, nan_policy="omit")
  )
  latest_month = monthly["month"].max()
  spikes = monthly[(monthly["month"] == latest_month) & (monthly["z_score"] > 3)]
  \<close>
  \<^verbatim>\<open>scipy.stats.zscore\<close> is a library function computing in \<^verbatim>\<open>float64\<close>. Its
  arithmetic is not modelled: the function is the parameter \<open>zs\<close> of the definitions
  below, from the totals of a group to their z-scores. Two facts about it are used, and
  are hypotheses where they are needed: it returns one entry for each value it is given,
  and for a single value the entry is NaN (the deviation and the standard deviation are
  both 0, and scipy sets the entries of a constant input to NaN).

  \<^verbatim>\<open>groupby(key)[col].transform(f)\<close> splits the row positions by key, applies \<open>f\<close> to
  the column values of each group, in row order, and writes the entries of the result
  back at the positions of the group.
\<close>

definition group_indices :: "('r \<Rightarrow> 'k::linorder) \<Rightarrow> 'r list \<Rightarrow> ('k \<times> nat list) list" where
  "group_indices key df =
     map (\<lambda>k. (k, filter (\<lambda>i. key (df ! i) = k) [0..<length df]))
       (sort (remdups (map key df)))"

fun scatter :: "nat list \<Rightarrow> 'v list \<Rightarrow> 'v list \<Rightarrow> 'v list" where
  "scatter (i # is) (v # vs) out = scatter is vs (out[i := v])"
| "scatter _ _ out = out"

definition transform :: "('r \<Rightarrow> 'k::linorder) \<Rightarrow> ('r \<Rightarrow> int) \<Rightarrow> (int list \<Rightarrow> fl list) \<Rightarrow> 'r list
    \<Rightarrow> fl list" where
  "transform key col f df =
     fold (\<lambda>(k, idxs) out. scatter idxs (f (map (\<lambda>i. col (df ! i)) idxs)) out)
       (group_indices key df) (replicate (length df) NaN)"

record monthly_z_row = monthly_row +
  z_score :: fl

definition set_z_score :: "monthly_row \<Rightarrow> fl \<Rightarrow> monthly_z_row" where
  "set_z_score r z = monthly_row.extend r (monthly_z_row.fields z)"

definition with_z_score :: "(int list \<Rightarrow> fl list) \<Rightarrow> monthly_row list \<Rightarrow> monthly_z_row list" where
  "with_z_score zs mo =
     map (\<lambda>(r, z). set_z_score r z) (zip mo (transform district biometrics_total zs mo))"

text \<open>The maximum of an empty column is missing (\<open>None\<close>) and equal to no month.\<close>

definition latest_month :: "monthly_row list \<Rightarrow> date option" where
  "latest_month mo = (case map month mo of [] \<Rightarrow> None | m # ms \<Rightarrow> Some (fold max ms m))"

definition spikes :: "(int list \<Rightarrow> fl list) \<Rightarrow> monthly_row list \<Rightarrow> monthly_z_row list" where
  "spikes zs mo =
     filter (\<lambda>r. Some (month r) = latest_month mo \<and> fgt (z_score r) 3) (with_z_score zs mo)"

text \<open>
  The per-district z-score of the row at position \<open>i\<close>, in the words of the
  specification: the z-scores of the totals of the row's district, in row order, at the
  place the row has among the rows of its district.
\<close>

definition district_totals :: "monthly_row list \<Rightarrow> string \<Rightarrow> int list" where
  "district_totals mo d = map biometrics_total (filter (\<lambda>r. district r = d) mo)"

definition district_z :: "(int list \<Rightarrow> fl list) \<Rightarrow> monthly_row list \<Rightarrow> nat \<Rightarrow> fl" where
  "district_z zs mo i =
     zs (district_totals mo (district (mo ! i)))
       ! length (filter (\<lambda>q. district q = district (mo ! i)) (take i mo))"

text \<open>
  The z-score in exact arithmetic, with the default \<^verbatim>\<open>ddof=0\<close>: every value minus the
  mean of the values, divided by their population standard deviation, where \<^verbatim>\<open>0/0\<close> is
  NaN. The \<^verbatim>\<open>float64\<close> result of scipy is this value up to rounding; on a constant
  input both are NaN in every entry. \<open>zscore\<close> has the two facts asked of \<open>zs\<close>.
\<close>

definition mean :: "int list \<Rightarrow> real" where
  "mean a = real_of_int (sum_list a) / real (length a)"

definition variance :: "int list \<Rightarrow> real" where
  "variance a = sum_list (map (\<lambda>x. (real_of_int x - mean a)\<^sup>2) a) / real (length a)"

definition std :: "int list \<Rightarrow> real" where
  "std a = sqrt (variance a)"

definition zscore_at :: "int list \<Rightarrow> int \<Rightarrow> fl" where
  "zscore_at a x = fdiv (Fin (real_of_int x - mean a)) (Fin (std a))"

definition zscore :: "int list \<Rightarrow> fl list" where
  "zscore a = map (zscore_at a) a"

section \<open>The filter and aggregation statements over a store\<close>

text \<open>
  A Python variable names a data-frame object, and two variables can name the same
  object. To follow which object a statement writes, the statements of lines 58-68 and
  145-155 are run over an explicit store: an environment from variables to addresses
  and a heap from addresses to frames. A statement is one of
  \<^item> \<open>New v args op\<close>: \<^verbatim>\<open>v = op(args)\<close>, where the operation builds a new frame (boolean
    indexing, \<^verbatim>\<open>groupby(...).sum()\<close> and \<^verbatim>\<open>merge\<close> all return a new object);
  \<^item> \<open>SetItem v op\<close>: \<^verbatim>\<open>v[column] = expression over v\<close>, which changes the object that
    \<open>v\<close> names, in place;
  \<^item> \<open>Bind v w\<close>: \<^verbatim>\<open>v = w\<close> (also parameter passing and \<^verbatim>\<open>return\<close>), after which
    both variables name the same object.
  A statement that Python would stop with an exception (an unbound name, a frame without
  the columns the operation reads) has no next state: \<open>None\<close>.
\<close>

type_synonym addr = nat

type_synonym var = string

datatype frame =
    Biometric_frame "biometric_row list"
  | Enrolment_frame "enrolment_row list"
  | Demographic_frame "demographic_row list"
  | Sums2_frame "((string \<times> string) \<times> int \<times> int) list"
  | Sums3_frame "((string \<times> string) \<times> int \<times> int \<times> int) list"
  | Joined_frame "joined_row list"
  | Pop_frame "pop_row list"
  | Pop_bio_frame "pop_bio_row list"
  | Merged_frame "merged_row list"

record pystate =
  env :: "var \<rightharpoonup> addr"
  heap :: "addr \<rightharpoonup> frame"
  next_addr :: addr

datatype stmt =
    New var "var list" "frame list \<Rightarrow> frame option"
  | SetItem var "frame \<Rightarrow> frame option"
  | Bind var var

definition lookup :: "pystate \<Rightarrow> var \<Rightarrow> frame option" where
  "lookup s v = (case env s v of None \<Rightarrow> None | Some a \<Rightarrow> heap s a)"

fun exec :: "stmt \<Rightarrow> pystate \<Rightarrow> pystate option" where
  "exec (New v args op) s =
     (case those (map (lookup s) args) of
        None \<Rightarrow> None
      | Some frs \<Rightarrow>
          (case op frs of
             None \<Rightarrow> None
           | Some fr \<Rightarrow>
               Some (s\<lparr>env := (env s)(v \<mapsto> next_addr s),
                        heap := (heap s)(next_addr s \<mapsto> fr),
                        next_addr := Suc (next_addr s)\<rparr>)))"
| "exec (SetItem v op) s =
     (case env s v of
        None \<Rightarrow> None
      | Some a \<Rightarrow>
          (case heap s a of
             None \<Rightarrow> None
           | Some fr \<Rightarrow>
               (case op fr of
                  None \<Rightarrow> None
                | Some fr' \<Rightarrow> Some (s\<lparr>heap := (heap s)(a \<mapsto> fr')\<rparr>))))"
| "exec (Bind v w) s =
     (case env s w of
        None \<Rightarrow> None
      | Some a \<Rightarrow> Some (s\<lparr>env := (env s)(v \<mapsto> a)\<rparr>))"

fun run :: "stmt list \<Rightarrow> pystate \<Rightarrow> pystate option" where
  "run [] s = Some s"
| "run (c # cs) s = (case exec c s of None \<Rightarrow> None | Some s' \<Rightarrow> run cs s')"

text \<open>The operations of the statements, on frames.\<close>

fun date_mask_op :: "filters \<Rightarrow> frame list \<Rightarrow> frame option" where
  "date_mask_op f [Biometric_frame df] = Some (Biometric_frame (date_mask f df))"
| "date_mask_op f [Enrolment_frame df] = Some (Enrolment_frame (date_mask f df))"
| "date_mask_op f [Demographic_frame df] = Some (Demographic_frame (date_mask f df))"
| "date_mask_op f _ = None"

fun state_mask_op :: "filters \<Rightarrow> frame list \<Rightarrow> frame option" where
  "state_mask_op f [Biometric_frame df] = Some (Biometric_frame (state_mask f df))"
| "state_mask_op f [Enrolment_frame df] = Some (Enrolment_frame (state_mask f df))"
| "state_mask_op f [Demographic_frame df] = Some (Demographic_frame (state_mask f df))"
| "state_mask_op f _ = None"

fun demo_d_op :: "frame list \<Rightarrow> frame option" where
  "demo_d_op [Demographic_frame df] = Some (Sums2_frame (demo_d df))"
| "demo_d_op _ = None"

fun bio_d_op :: "frame list \<Rightarrow> frame option" where
  "bio_d_op [Biometric_frame df] = Some (Sums2_frame (bio_d df))"
| "bio_d_op _ = None"

fun enr_d_op :: "frame list \<Rightarrow> frame option" where
  "enr_d_op [Enrolment_frame df] = Some (Sums3_frame (enr_d df))"
| "enr_d_op _ = None"

fun merge_op :: "frame list \<Rightarrow> frame option" where
  "merge_op [Sums2_frame dd, Sums2_frame bd, Sums3_frame ed] = Some (Joined_frame (merge_d dd bd ed))"
| "merge_op _ = None"

fun set_population_op :: "frame \<Rightarrow> frame option" where
  "set_population_op (Joined_frame m) = Some (Pop_frame (set_population m))"
| "set_population_op _ = None"

fun set_biometrics_op :: "frame \<Rightarrow> frame option" where
  "set_biometrics_op (Pop_frame m) = Some (Pop_bio_frame (set_biometrics m))"
| "set_biometrics_op _ = None"

fun set_enrolments_op :: "frame \<Rightarrow> frame option" where
  "set_enrolments_op (Pop_bio_frame m) = Some (Merged_frame (set_enrolments m))"
| "set_enrolments_op _ = None"

fun population_floor_op :: "frame list \<Rightarrow> frame option" where
  "population_floor_op [Merged_frame m] = Some (Merged_frame (population_floor m))"
| "population_floor_op _ = None"

text \<open>
  The call \<^verbatim>\<open>dst = apply_filters(src)\<close>: the parameter \<^verbatim>\<open>df\<close> first names the
  argument's object, each indexing rebinds it to a new frame, and the result is bound
  to \<open>dst\<close>.
\<close>

definition apply_filters_stmts :: "filters \<Rightarrow> var \<Rightarrow> var \<Rightarrow> stmt list" where
  "apply_filters_stmts f dst src =
     [Bind ''df'' src, New ''df'' [''df''] (date_mask_op f)] @
     (if sel_state f \<noteq> ''All'' then [New ''df'' [''df''] (state_mask_op f)] else []) @
     [Bind dst ''df'']"

text \<open>Lines 145-155.\<close>

definition aggregation_stmts :: "stmt list" where
  "aggregation_stmts =
     [New ''demo_d'' [''demographic_f''] demo_d_op,
      New ''bio_d'' [''biometric_f''] bio_d_op,
      New ''enr_d'' [''enrolment_f''] enr_d_op,
      New ''merged'' [''demo_d'', ''bio_d'', ''enr_d''] merge_op,
      SetItem ''merged'' set_population_op,
      SetItem ''merged'' set_biometrics_op,
      SetItem ''merged'' set_enrolments_op,
      New ''merged'' [''merged''] population_floor_op]"

definition script :: "filters \<Rightarrow> stmt list" where
  "script f =
     apply_filters_stmts f ''biometric_f'' ''biometric'' @
     apply_filters_stmts f ''enrolment_f'' ''enrolment'' @
     apply_filters_stmts f ''demographic_f'' ''demographic'' @
     aggregation_stmts"

text \<open>
  The variables that may name one of the source objects, followed through the
  statements: \<open>ts\<close> lists them before a statement, \<open>aliases ts c\<close> after it. A
  statement list writes no source object when none of its \<open>SetItem\<close> statements is on
  such a variable.
\<close>

fun aliases :: "var list \<Rightarrow> stmt \<Rightarrow> var list" where
  "aliases ts (New v args op) = removeAll v ts"
| "aliases ts (SetItem v op) = ts"
| "aliases ts (Bind v w) = (if w \<in> set ts then v # ts else removeAll v ts)"

fun writes_alias :: "var list \<Rightarrow> stmt \<Rightarrow> bool" where
  "writes_alias ts (SetItem v op) = (v \<in> set ts)"
| "writes_alias ts _ = False"

fun no_source_write :: "var list \<Rightarrow> stmt list \<Rightarrow> bool" where
  "no_source_write ts [] = True"
| "no_source_write ts (c # cs) = (\<not> writes_alias ts c \<and> no_source_write (aliases ts c) cs)"

definition source_vars :: "var list" where
  "source_vars = [''biometric'', ''enrolment'', ''demographic'']"

text \<open>
  The invariant of the analysis: only the listed variables name an object of \<open>P\<close>,
  and every address of \<open>P\<close> is allocated.
\<close>

definition separated :: "addr set \<Rightarrow> var list \<Rightarrow> pystate \<Rightarrow> bool" where
  "separated P ts s =
     ((\<forall>v a. env s v = Some a \<and> a \<in> P \<longrightarrow> v \<in> set ts) \<and> (\<forall>a \<in> P. a < next_addr s))"

text \<open>For the proofs: \<open>apply_filters\<close> on a frame of one of the three source tables.\<close>

fun apply_filters_frame :: "filters \<Rightarrow> frame \<Rightarrow> frame option" where
  "apply_filters_frame f (Biometric_frame df) = Some (Biometric_frame (apply_filters f df))"
| "apply_filters_frame f (Enrolment_frame df) = Some (Enrolment_frame (apply_filters f df))"
| "apply_filters_frame f (Demographic_frame df) = Some (Demographic_frame (apply_filters f df))"
| "apply_filters_frame f _ = None"

section \<open>Example inputs\<close>

definition ex_bio :: "biometric_row list" where
  "ex_bio =
     [\<lparr>district = ''Pune'', state = ''Maharashtra'', date = (2025, 1, 15),
       bio_age_5_17 = 3, bio_age_17_plus = 4\<rparr>,
      \<lparr>district = ''Kochi'', state = ''Kerala'', date = (2025, 2, 10),
       bio_age_5_17 = 5, bio_age_17_plus = 6\<rparr>,
      \<lparr>district = ''Pune'', state = ''Maharashtra'', date = (2025, 3, 1),
       bio_age_5_17 = 7, bio_age_17_plus = 8\<rparr>]"

definition ex_all :: "biometric_row list" where
  "ex_all =
     [\<lparr>district = ''North'', state = ''All'', date = (2025, 1, 15),
       bio_age_5_17 = 1, bio_age_17_plus = 2\<rparr>,
      \<lparr>district = ''Kochi'', state = ''Kerala'', date = (2025, 2, 10),
       bio_age_5_17 = 5, bio_age_17_plus = 6\<rparr>]"

definition ex_demo3 :: "demographic_row list" where
  "ex_demo3 =
     [\<lparr>district = ''Pune'', state = ''Maharashtra'', date = (2025, 1, 1),
       demo_age_5_17 = 20000, demo_age_17_plus = 30000\<rparr>,
      \<lparr>district = ''Kochi'', state = ''Kerala'', date = (2025, 1, 1),
       demo_age_5_17 = 8000, demo_age_17_plus = 12000\<rparr>,
      \<lparr>district = ''Mahe'', state = ''Puducherry'', date = (2025, 1, 1),
       demo_age_5_17 = 2000, demo_age_17_plus = 3000\<rparr>]"

definition ex_bio3 :: "biometric_row list" where
  "ex_bio3 =
     [\<lparr>district = ''Pune'', state = ''Maharashtra'', date = (2025, 1, 1),
       bio_age_5_17 = 400, bio_age_17_plus = 600\<rparr>,
      \<lparr>district = ''Kochi'', state = ''Kerala'', date = (2025, 1, 1),
       bio_age_5_17 = 400, bio_age_17_plus = 600\<rparr>,
      \<lparr>district = ''Mahe'', state = ''Puducherry'', date = (2025, 1, 1),
       bio_age_5_17 = 400, bio_age_17_plus = 600\<rparr>]"

definition ex_enr3 :: "enrolment_row list" where
  "ex_enr3 =
     [\<lparr>district = ''Pune'', state = ''Maharashtra'', date = (2025, 1, 1),
       age_0_5 = 10, age_5_17 = 20, age_18_greater = 30\<rparr>,
      \<lparr>district = ''Kochi'', state = ''Kerala'', date = (2025, 1, 1),
       age_0_5 = 10, age_5_17 = 20, age_18_greater = 30\<rparr>,
      \<lparr>district = ''Mahe'', state = ''Puducherry'', date = (2025, 1, 1),
       age_0_5 = 10, age_5_17 = 20, age_18_greater = 30\<rparr>]"

text \<open>The enrolment table of the example without its row for Mahe.\<close>

definition ex_enr2 :: "enrolment_row list" where
  "ex_enr2 = take 2 ex_enr3"

text \<open>The biometric table of the example with every count set to zero.\<close>

definition ex_bio_zero :: "biometric_row list" where
  "ex_bio_zero = map (\<lambda>r. r\<lparr>bio_age_5_17 := 0, bio_age_17_plus := 0\<rparr>) ex_bio3"

text \<open>
  Two districts over two months: the first has no transaction in its first month and
  500 in its second, the other 100 and then 200.
\<close>

definition ex_bio_growth :: "biometric_row list" where
  "ex_bio_growth =
     [\<lparr>district = ''Pune'', state = ''Maharashtra'', date = (2025, 2, 3),
       bio_age_5_17 = 200, bio_age_17_plus = 300\<rparr>,
      \<lparr>district = ''Kochi'', state = ''Kerala'', date = (2025, 1, 10),
       bio_age_5_17 = 40, bio_age_17_plus = 60\<rparr>,
      \<lparr>district = ''Pune'', state = ''Maharashtra'', date = (2025, 1, 20),
       bio_age_5_17 = 0, bio_age_17_plus = 0\<rparr>,
      \<lparr>district = ''Kochi'', state = ''Kerala'', date = (2025, 2, 5),
       bio_age_5_17 = 80, bio_age_17_plus = 20\<rparr>,
      \<lparr>district = ''Kochi'', state = ''Kerala'', date = (2025, 2, 25),
       bio_age_5_17 = 50, bio_age_17_plus = 50\<rparr>]"

text \<open>
  For the proofs about \<open>monthly\<close>: its grouping key, and the row it builds for a key.
\<close>

definition month_key :: "biometric_row \<Rightarrow> string \<times> date" where
  "month_key r = (district r, month_of (date r))"

definition monthly_of_key :: "biometric_row list \<Rightarrow> string \<times> date \<Rightarrow> monthly_row" where
  "monthly_of_key bf k =
     (let g = filter (\<lambda>r. month_key r = k) bf;
          b1 = sum_list (map bio_age_5_17 g); b2 = sum_list (map bio_age_17_plus g)
      in \<lparr>district = fst k, month = snd k, m_bio_age_5_17 = b1, m_bio_age_17_plus = b2,
          biometrics_total = b1 + b2\<rparr>)"

text \<open>One district with the same total, 100, in each of three months.\<close>

definition ex_bio_const :: "biometric_row list" where
  "ex_bio_const =
     [\<lparr>district = ''Kochi'', state = ''Kerala'', date = (2025, 1, 10),
       bio_age_5_17 = 40, bio_age_17_plus = 60\<rparr>,
      \<lparr>district = ''Kochi'', state = ''Kerala'', date = (2025, 2, 5),
       bio_age_5_17 = 80, bio_age_17_plus = 20\<rparr>,
      \<lparr>district = ''Kochi'', state = ''Kerala'', date = (2025, 3, 25),
       bio_age_5_17 = 50, bio_age_17_plus = 50\<rparr>]"

text \<open>
  Goa has no transaction in the ten months from January to October 2024 and 11 in
  November 2024; Mahe is observed in November 2024 only; Pune has 100 transactions in
  October and 500 in November 2024.
\<close>

definition ex_bio_spike :: "biometric_row list" where
  "ex_bio_spike =
     map (\<lambda>m. \<lparr>district = ''Goa'', state = ''Goa'', date = (2024, m, 15),
                bio_age_5_17 = 0, bio_age_17_plus = 0\<rparr>) [1..<11] @
     [\<lparr>district = ''Goa'', state = ''Goa'', date = (2024, 11, 15),
       bio_age_5_17 = 4, bio_age_17_plus = 7\<rparr>,
      \<lparr>district = ''Mahe'', state = ''Puducherry'', date = (2024, 11, 9),
       bio_age_5_17 = 400, bio_age_17_plus = 600\<rparr>,
      \<lparr>district = ''Pune'', state = ''Maharashtra'', date = (2024, 10, 20),
       bio_age_5_17 = 40, bio_age_17_plus = 60\<rparr>,
      \<lparr>district = ''Pune'', state = ''Maharashtra'', date = (2024, 11, 20),
       bio_age_5_17 = 200, bio_age_17_plus = 300\<rparr>]"

text \<open>
  A store after loading: the three source variables name three objects, and nothing else
  is bound.
\<close>

definition ex_store :: pystate where
  "ex_store =
     \<lparr>env = [''biometric'' \<mapsto> 0, ''enrolment'' \<mapsto> 1, ''demographic'' \<mapsto> 2],
      heap = [0 \<mapsto> Biometric_frame ex_bio3, 1 \<mapsto> Enrolment_frame ex_enr3,
              2 \<mapsto> Demographic_frame ex_demo3],
      next_addr = 3\<rparr>"

definition ex_filters :: filters where
  "ex_filters = \<lparr>date_range = ((2025, 1, 1), (2025, 12, 31)), sel_state = ''Kerala''\<rparr>"

section \<open>Properties of the filter stage\<close>

lemma apply_filters_unfold:
  "apply_filters f df =
     (if sel_state f \<noteq> ''All''
      then filter (\<lambda>r. state r = sel_state f)
             (filter (\<lambda>r. fst (date_range f) \<le> date r \<and> date r \<le> snd (date_range f)) df)
      else filter (\<lambda>r. fst (date_range f) \<le> date r \<and> date r \<le> snd (date_range f)) df)"
  by (simp add: apply_filters_def date_mask_def state_mask_def Let_def split: prod.splits)

lemma apply_filters_set:
  "set (apply_filters f df) =
     {r \<in> set df. fst (date_range f) \<le> date r \<and> date r \<le> snd (date_range f) \<and>
                   (sel_state f \<noteq> ''All'' \<longrightarrow> state r = sel_state f)}"
  by (auto simp: apply_filters_unfold)

lemma apply_filters_subseq: "subseq (apply_filters f df) df"
proof -
  let ?in_range = "\<lambda>r. fst (date_range f) \<le> date r \<and> date r \<le> snd (date_range f)"
  have "subseq (filter (\<lambda>r. state r = sel_state f) (filter ?in_range df)) (filter ?in_range df)"
    by (rule subseq_filter_left)
  moreover have "subseq (filter ?in_range df) df"
    by (rule subseq_filter_left)
  ultimately show ?thesis
    unfolding apply_filters_unfold by (auto intro: subseq_order.trans)
qed

lemma apply_filters_reversed:
  assumes "snd (date_range f) < fst (date_range f)"
  shows "apply_filters f df = []"
proof -
  have "\<not> (fst (date_range f) \<le> date r \<and> date r \<le> snd (date_range f))" for r :: "'a event_scheme"
    using assms by auto
  then show ?thesis
    by (simp add: apply_filters_unfold)
qed

text \<open>
  C7. For every date interval [start, end] and every table (the theorem holds for any
  row type with the columns date, state and district, so for each of the three tables),
  the output of \<open>apply_filters\<close> is a subsequence of the input rows, every output row's
  date lies in [start, end] inclusive and its state is the selected one when the
  selection is not \<^verbatim>\<open>"All"\<close>, and when start > end the output is empty. The function is
  total: no branch of it raises.
\<close>

theorem apply_filters_subsequence_in_range:
  "subseq (apply_filters f df) df \<and>
   (\<forall>r \<in> set (apply_filters f df).
      fst (date_range f) \<le> date r \<and> date r \<le> snd (date_range f) \<and>
      (sel_state f \<noteq> ''All'' \<longrightarrow> state r = sel_state f)) \<and>
   (snd (date_range f) < fst (date_range f) \<longrightarrow> apply_filters f df = [])"
  using apply_filters_subseq [of f df] apply_filters_reversed [of f df]
  by (simp add: apply_filters_set)

theorem apply_filters_subsequence_in_range_witness:
  "apply_filters \<lparr>date_range = ((2025, 1, 1), (2025, 2, 28)), sel_state = ''Maharashtra''\<rparr> ex_bio
     = [\<lparr>district = ''Pune'', state = ''Maharashtra'', date = (2025, 1, 15),
         bio_age_5_17 = 3, bio_age_17_plus = 4\<rparr>] \<and>
   subseq (apply_filters \<lparr>date_range = ((2025, 1, 1), (2025, 2, 28)), sel_state = ''Maharashtra''\<rparr> ex_bio) ex_bio \<and>
   ((2025, 3, 1) :: date) < (2025, 4, 1) \<and>
   apply_filters \<lparr>date_range = ((2025, 4, 1), (2025, 3, 1)), sel_state = ''All''\<rparr> ex_bio = []"
  using apply_filters_subsequence_in_range
          [of "\<lparr>date_range = ((2025, 1, 1), (2025, 2, 28)), sel_state = ''Maharashtra''\<rparr>" ex_bio]
        apply_filters_subsequence_in_range
          [of "\<lparr>date_range = ((2025, 4, 1), (2025, 3, 1)), sel_state = ''All''\<rparr>" ex_bio]
  by (simp add: apply_filters_unfold ex_bio_def)

text \<open>
  C10. The sentinel of the select box is the literal string \<^verbatim>\<open>"All"\<close>: when the selected
  state equals it, \<open>apply_filters\<close> restricts by date only, so every row in the date
  range is kept whatever its state. A state that is itself named \<^verbatim>\<open>"All"\<close> cannot
  be selected on its own: choosing it keeps the rows of the other states too.
\<close>

theorem all_sentinel_no_state_restriction:
  "sel_state f = ''All'' \<Longrightarrow>
     apply_filters f df =
       filter (\<lambda>r. fst (date_range f) \<le> date r \<and> date r \<le> snd (date_range f)) df \<and>
     (\<forall>r \<in> set df. fst (date_range f) \<le> date r \<and> date r \<le> snd (date_range f)
        \<longrightarrow> r \<in> set (apply_filters f df))"
  by (simp add: apply_filters_unfold)

theorem all_sentinel_no_state_restriction_witness:
  "sel_state \<lparr>date_range = ((2025, 1, 1), (2025, 12, 31)), sel_state = ''All''\<rparr> = ''All'' \<and>
   apply_filters \<lparr>date_range = ((2025, 1, 1), (2025, 12, 31)), sel_state = ''All''\<rparr> ex_all = ex_all \<and>
   \<lparr>district = ''Kochi'', state = ''Kerala'', date = (2025, 2, 10),
     bio_age_5_17 = 5, bio_age_17_plus = 6\<rparr>
     \<in> set (apply_filters \<lparr>date_range = ((2025, 1, 1), (2025, 12, 31)), sel_state = ''All''\<rparr> ex_all)"
  using all_sentinel_no_state_restriction
          [of "\<lparr>date_range = ((2025, 1, 1), (2025, 12, 31)), sel_state = ''All''\<rparr>" ex_all]
  by (simp add: ex_all_def)

section \<open>Properties of grouping and joining\<close>

lemma groupby_keys: "map fst (groupby key df) = sort (remdups (map key df))"
  by (simp add: groupby_def comp_def)

lemma groupby_key_set: "fst ` set (groupby key df) = key ` set df"
proof -
  have "set (map fst (groupby key df)) = key ` set df"
    by (simp only: groupby_keys) simp
  then show ?thesis by simp
qed

lemma groupby_group:
  "(k, g) \<in> set (groupby key df) \<Longrightarrow> g = filter (\<lambda>r. key r = k) df \<and> k \<in> key ` set df"
  by (auto simp: groupby_def)

lemma groupby_nonempty: "(k, g) \<in> set (groupby key df) \<Longrightarrow> g \<noteq> []"
proof -
  assume "(k, g) \<in> set (groupby key df)"
  then have g: "g = filter (\<lambda>r. key r = k) df" and "k \<in> key ` set df"
    using groupby_group by fastforce+
  then obtain r where "r \<in> set df" "key r = k" by auto
  then have "r \<in> set g" by (simp add: g)
  then show "g \<noteq> []" by auto
qed

lemma merge_on_set:
  "set (merge_on ka kb left right) = {(l, r). l \<in> set left \<and> r \<in> set right \<and> kb r = ka l}"
  by (auto simp: merge_on_def)

lemma demo_d_keys: "fst ` set (demo_d df) = geo_key ` set df"
proof -
  have "map fst (demo_d df) = map fst (groupby geo_key df)"
    by (simp add: demo_d_def split_def)
  then have "set (map fst (demo_d df)) = set (map fst (groupby geo_key df))"
    by simp
  then show ?thesis by (simp add: groupby_key_set)
qed

lemma bio_d_keys: "fst ` set (bio_d df) = geo_key ` set df"
proof -
  have "map fst (bio_d df) = map fst (groupby geo_key df)"
    by (simp add: bio_d_def split_def)
  then have "set (map fst (bio_d df)) = set (map fst (groupby geo_key df))"
    by simp
  then show ?thesis by (simp add: groupby_key_set)
qed

lemma enr_d_keys: "fst ` set (enr_d df) = geo_key ` set df"
proof -
  have "map fst (enr_d df) = map fst (groupby geo_key df)"
    by (simp add: enr_d_def split_def)
  then have "set (map fst (enr_d df)) = set (map fst (groupby geo_key df))"
    by simp
  then show ?thesis by (simp add: groupby_key_set)
qed

lemma joined_mem:
  "r \<in> set (joined df bf ef) \<longleftrightarrow>
     (\<exists>k d1 d2 b1 b2 e1 e2 e3.
        (k, d1, d2) \<in> set (demo_d df) \<and> (k, b1, b2) \<in> set (bio_d bf) \<and>
        (k, e1, e2, e3) \<in> set (enr_d ef) \<and>
        r = \<lparr>district = snd k, state = fst k,
             d_demo_age_5_17 = d1, d_demo_age_17_plus = d2,
             d_bio_age_5_17 = b1, d_bio_age_17_plus = b2,
             d_age_0_5 = e1, d_age_5_17 = e2, d_age_18_greater = e3,
             population = d1 + d2, biometrics = b1 + b2, enrolments = e1 + e2 + e3\<rparr>)"
proof -
  have eq: "joined df bf ef =
      map (\<lambda>(((k, d1, d2), (kb, b1, b2)), (ke, e1, e2, e3)).
            \<lparr>district = snd k, state = fst k,
             d_demo_age_5_17 = d1, d_demo_age_17_plus = d2,
             d_bio_age_5_17 = b1, d_bio_age_17_plus = b2,
             d_age_0_5 = e1, d_age_5_17 = e2, d_age_18_greater = e3,
             population = d1 + d2, biometrics = b1 + b2, enrolments = e1 + e2 + e3\<rparr>)
       (merge_on (\<lambda>(d, b). fst d) fst (merge_on fst fst (demo_d df) (bio_d bf)) (enr_d ef))"
    by (simp add: joined_def merge_d_def set_population_def set_biometrics_def
        set_enrolments_def comp_def split_def
        joined_row.defs pop_row.defs pop_bio_row.defs merged_row.defs)
  show ?thesis
    unfolding eq set_map merge_on_set
    by (auto simp: image_iff split: prod.splits)
qed

lemma joined_key_in_all:
  assumes "r \<in> set (joined df bf ef)"
  shows "geo_key r \<in> geo_key ` set df \<inter> geo_key ` set bf \<inter> geo_key ` set ef"
proof -
  from assms obtain k d1 d2 b1 b2 e1 e2 e3 where
    d: "(k, d1, d2) \<in> set (demo_d df)" and b: "(k, b1, b2) \<in> set (bio_d bf)" and
    e: "(k, e1, e2, e3) \<in> set (enr_d ef)" and r: "geo_key r = k"
    by (auto simp: joined_mem geo_key_def)
  from d have "k \<in> fst ` set (demo_d df)" by force
  moreover from b have "k \<in> fst ` set (bio_d bf)" by force
  moreover from e have "k \<in> fst ` set (enr_d ef)" by force
  ultimately show ?thesis
    by (simp add: r demo_d_keys bio_d_keys enr_d_keys)
qed

lemma merged_subset_joined: "set (merged df bf ef) \<subseteq> set (joined df bf ef)"
  by (auto simp: merged_def population_floor_def)

text \<open>
  C6. The district-level table is an inner join on (state, district): a key that is
  absent from one of the three filtered tables is the key of no row of the joined
  table, before the population floor (\<open>joined\<close>) and after it (\<open>merged\<close>).
\<close>

theorem inner_join_drops_missing_district:
  assumes "k \<notin> geo_key ` set demographic_f \<or> k \<notin> geo_key ` set biometric_f
             \<or> k \<notin> geo_key ` set enrolment_f"
  shows "k \<notin> geo_key ` set (joined demographic_f biometric_f enrolment_f) \<and>
         k \<notin> geo_key ` set (merged demographic_f biometric_f enrolment_f)"
proof -
  have "k \<notin> geo_key ` set (joined demographic_f biometric_f enrolment_f)"
  proof
    assume "k \<in> geo_key ` set (joined demographic_f biometric_f enrolment_f)"
    then obtain r where "r \<in> set (joined demographic_f biometric_f enrolment_f)" "k = geo_key r"
      by auto
    with joined_key_in_all [of r] assms show False by auto
  qed
  then show ?thesis
    using merged_subset_joined [of demographic_f biometric_f enrolment_f] by auto
qed

lemma ex_joined_2: "map geo_key (joined ex_demo3 ex_bio3 ex_enr2) =
     [(''Kerala'', ''Kochi''), (''Maharashtra'', ''Pune'')]"
  by code_simp

lemma ex_enr2_keys: "map geo_key ex_enr2 = [(''Maharashtra'', ''Pune''), (''Kerala'', ''Kochi'')]"
  by code_simp

theorem inner_join_drops_missing_district_witness:
  "(''Puducherry'', ''Mahe'') \<notin> geo_key ` set ex_enr2 \<and>
   (''Puducherry'', ''Mahe'') \<notin> geo_key ` set (joined ex_demo3 ex_bio3 ex_enr2) \<and>
   (''Puducherry'', ''Mahe'') \<notin> geo_key ` set (merged ex_demo3 ex_bio3 ex_enr2) \<and>
   map geo_key (joined ex_demo3 ex_bio3 ex_enr2) = [(''Kerala'', ''Kochi''), (''Maharashtra'', ''Pune'')]"
proof -
  have absent: "(''Puducherry'', ''Mahe'') \<notin> geo_key ` set ex_enr2"
    using ex_enr2_keys by (simp flip: set_map)
  from inner_join_drops_missing_district [of _ ex_demo3 ex_bio3 ex_enr2] absent
  show ?thesis by (simp add: ex_joined_2)
qed

section \<open>Properties of the rankings built on the district table\<close>

lemma set_insert_desc: "set (insert_desc key x ys) = insert x (set ys)"
  by (induction ys) auto

lemma set_sort_values_desc: "set (sort_values_desc key df) = set df"
  by (induction df) (simp_all add: sort_values_desc_def set_insert_desc)

lemma set_head10: "set (head10 df) \<subseteq> set df"
  by (simp add: head10_def set_take_subset)

lemma with_intensity_row:
  assumes "h \<in> set (with_intensity m)"
  shows "\<exists>r \<in> set m. population h = population r \<and> biometrics h = biometrics r \<and>
           state h = state r \<and> district h = district r \<and>
           biometric_intensity_index h =
             fdiv (idiv (biometrics r) (population r)) (national_rate m)"
  using assms
  by (auto simp: with_intensity_def merged_row.defs hub_row.defs)

lemma top_districts_row:
  assumes "h \<in> set (top_districts m)"
  shows "\<exists>r \<in> set m. population h = population r \<and> biometrics h = biometrics r \<and>
           state h = state r \<and> district h = district r \<and>
           biometric_intensity_index h =
             fdiv (idiv (biometrics r) (population r)) (national_rate m)"
proof -
  from assms have "h \<in> set (with_intensity m)"
    using set_head10 [of "sort_values_desc biometric_intensity_index (with_intensity m)"]
    by (auto simp: top_districts_def set_sort_values_desc)
  then show ?thesis by (rule with_intensity_row)
qed

lemma state_agg_row:
  assumes "s \<in> set (state_agg m)"
  shows "s_population s = sum_list (map population (filter (\<lambda>r. state r = s_state s) m)) \<and>
         s_biometrics s = sum_list (map biometrics (filter (\<lambda>r. state r = s_state s) m))"
proof -
  from assms obtain k g where kg: "(k, g) \<in> set (groupby state m)"
    and s: "s_state s = k" "s_population s = sum_list (map population g)"
           "s_biometrics s = sum_list (map biometrics g)"
    by (auto simp: state_agg_def Let_def)
  from kg have "g = filter (\<lambda>r. state r = k) m"
    using groupby_group by fastforce
  with s show ?thesis by simp
qed

lemma top_states_row:
  assumes "s \<in> set (top_states m)"
  shows "s_population s = sum_list (map population (filter (\<lambda>r. state r = s_state s) m)) \<and>
         s_biometrics s = sum_list (map biometrics (filter (\<lambda>r. state r = s_state s) m))"
proof -
  from assms have "s \<in> set (state_agg m)"
    using set_head10 [of "sort_values_desc biometric_per_capita (state_agg m)"]
    by (auto simp: top_states_def set_sort_values_desc)
  then show ?thesis by (rule state_agg_row)
qed

lemma merged_floor: "r \<in> set (merged df bf ef) \<longleftrightarrow> r \<in> set (joined df bf ef) \<and> population r > 10000"
  by (auto simp: merged_def population_floor_def)

lemma joined_population:
  assumes "r \<in> set (joined df bf ef)"
  shows "population r = d_demo_age_5_17 r + d_demo_age_17_plus r"
  using assms by (auto simp: joined_mem)

text \<open>
  C5, as stated, fails: three districts with populations 50,000 / 20,000 / 5,000 and
  1,000 biometric transactions each. The district of population 5,000 (Mahe) is a row
  of the joined table, and it is ranked by the growth-rate indicator, which is computed
  from the biometric events alone: that ranking has three entries, not two.
\<close>

theorem population_floor_all_rankings_counterexample:
  "map (\<lambda>r. (district r, population r, biometrics r)) (joined ex_demo3 ex_bio3 ex_enr3) =
     [(''Kochi'', 20000, 1000), (''Pune'', 50000, 1000), (''Mahe'', 5000, 1000)] \<and>
   map district (trend (monthly ex_bio3)) = [''Kochi'', ''Mahe'', ''Pune'']"
  by code_simp

text \<open>
  C5, amended. The population of a joined row is the sum of its two demographic sums,
  and \<open>merged\<close> keeps exactly the joined rows with population > 10,000. Hence a row
  with population <= 10,000 is in neither ranking built on \<open>merged\<close>: every entry
  of the intensity ranking is a district above the floor, and the sums of every entry
  of the state ranking run over the districts above the floor only.
\<close>

theorem population_floor_district_rankings:
  "(\<forall>r \<in> set (joined df bf ef).
      population r = d_demo_age_5_17 r + d_demo_age_17_plus r \<and>
      (r \<in> set (merged df bf ef) \<longleftrightarrow> population r > 10000)) \<and>
   (\<forall>h \<in> set (top_districts (merged df bf ef)).
      population h > 10000 \<and> geo_key h \<in> geo_key ` set (merged df bf ef)) \<and>
   (\<forall>s \<in> set (top_states (merged df bf ef)).
      s_population s =
        sum_list (map population
          (filter (\<lambda>r. state r = s_state s \<and> population r > 10000) (joined df bf ef))) \<and>
      s_biometrics s =
        sum_list (map biometrics
          (filter (\<lambda>r. state r = s_state s \<and> population r > 10000) (joined df bf ef))))"
proof (intro conjI ballI)
  fix r assume "r \<in> set (joined df bf ef)"
  then show "population r = d_demo_age_5_17 r + d_demo_age_17_plus r"
    by (rule joined_population)
next
  fix r assume "r \<in> set (joined df bf ef)"
  then show "r \<in> set (merged df bf ef) \<longleftrightarrow> population r > 10000"
    by (simp add: merged_floor)
next
  fix h assume h: "h \<in> set (top_districts (merged df bf ef))"
  from top_districts_row [OF h] obtain r where
    r: "r \<in> set (merged df bf ef)" "population h = population r"
       "state h = state r" "district h = district r"
    by blast
  from r show "population h > 10000" by (simp add: merged_floor)
  from r have "geo_key h = geo_key r" by (simp add: geo_key_def)
  with r show "geo_key h \<in> geo_key ` set (merged df bf ef)" by auto
next
  fix s assume s: "s \<in> set (top_states (merged df bf ef))"
  have flt: "filter (\<lambda>r. state r = s_state s) (merged df bf ef) =
      filter (\<lambda>r. state r = s_state s \<and> population r > 10000) (joined df bf ef)"
    by (simp add: merged_def population_floor_def conj_commute)
  from top_states_row [OF s] flt
  show "s_population s =
        sum_list (map population
          (filter (\<lambda>r. state r = s_state s \<and> population r > 10000) (joined df bf ef)))"
    and "s_biometrics s =
        sum_list (map biometrics
          (filter (\<lambda>r. state r = s_state s \<and> population r > 10000) (joined df bf ef)))"
    by simp_all
qed

lemma ex3_rankings:
  "map (\<lambda>h. (district h, population h)) (top_districts (merged ex_demo3 ex_bio3 ex_enr3)) =
     [(''Kochi'', 20000), (''Pune'', 50000)] \<and>
   map (\<lambda>s. (s_state s, s_population s)) (top_states (merged ex_demo3 ex_bio3 ex_enr3)) =
     [(''Kerala'', 20000), (''Maharashtra'', 50000)] \<and>
   map (\<lambda>r. (district r, population r)) (joined ex_demo3 ex_bio3 ex_enr3) =
     [(''Kochi'', 20000), (''Pune'', 50000), (''Mahe'', 5000)] \<and>
   map (\<lambda>r. (district r, population r)) (merged ex_demo3 ex_bio3 ex_enr3) =
     [(''Kochi'', 20000), (''Pune'', 50000)]"
  by code_simp

theorem population_floor_district_rankings_witness:
  "map (\<lambda>r. (district r, population r)) (joined ex_demo3 ex_bio3 ex_enr3) =
     [(''Kochi'', 20000), (''Pune'', 50000), (''Mahe'', 5000)] \<and>
   map (\<lambda>r. (district r, population r)) (merged ex_demo3 ex_bio3 ex_enr3) =
     [(''Kochi'', 20000), (''Pune'', 50000)] \<and>
   map (\<lambda>h. (district h, population h)) (top_districts (merged ex_demo3 ex_bio3 ex_enr3)) =
     [(''Kochi'', 20000), (''Pune'', 50000)] \<and>
   list_all (\<lambda>h. population h > 10000) (top_districts (merged ex_demo3 ex_bio3 ex_enr3)) \<and>
   map (\<lambda>s. (s_state s, s_population s)) (top_states (merged ex_demo3 ex_bio3 ex_enr3)) =
     [(''Kerala'', 20000), (''Maharashtra'', 50000)]"
  using population_floor_district_rankings [of ex_demo3 ex_bio3 ex_enr3] ex3_rankings
  by (simp add: list_all_iff)

text \<open>
  With a national rate that is finite and not zero, the intensity index of a district
  is its rate (biometrics / population) divided by the national rate.
\<close>

lemma intensity_index_defined:
  assumes rate: "national_rate m = Fin c" "c \<noteq> 0"
    and h: "h \<in> set (with_intensity m)" "population h \<noteq> 0"
  shows "biometric_intensity_index h =
           Fin (real_of_int (biometrics h) / real_of_int (population h) / c)"
proof -
  from with_intensity_row [OF h(1)] obtain r :: merged_row where
    r: "population h = population r" "biometrics h = biometrics r"
       "biometric_intensity_index h = fdiv (idiv (biometrics r) (population r)) (national_rate m)"
    by blast
  from h(2) r(1) have "idiv (biometrics r) (population r) =
      Fin (real_of_int (biometrics r) / real_of_int (population r))"
    by (simp add: idiv_def)
  with r rate show ?thesis by simp
qed

text \<open>
  C1 on the code: two districts above the population floor and no biometric
  transaction anywhere. The national rate is 0, nothing guards the division, and the
  intensity index of every ranked district is NaN.
\<close>

theorem intensity_index_zero_national_rate:
  "map (\<lambda>r. (district r, population r, biometrics r)) (merged ex_demo3 ex_bio_zero ex_enr3) =
     [(''Kochi'', 20000, 0), (''Pune'', 50000, 0)] \<and>
   national_rate (merged ex_demo3 ex_bio_zero ex_enr3) = Fin 0 \<and>
   map (\<lambda>h. (district h, biometric_intensity_index h))
     (top_districts (merged ex_demo3 ex_bio_zero ex_enr3)) =
     [(''Kochi'', NaN), (''Pune'', NaN)]"
  by code_simp

section \<open>Properties of the monthly series and of the growth ranking\<close>

lemma monthly_alt: "monthly bf = map (monthly_of_key bf) (sort (remdups (map month_key bf)))"
proof -
  have "(\<lambda>r. (district r, month_of (date r))) = month_key"
    by (simp add: month_key_def fun_eq_iff)
  then show ?thesis
    by (simp add: monthly_def groupby_def monthly_of_key_def Let_def comp_def)
qed

lemma monthly_keys:
  "map (\<lambda>r. (district r, month r)) (monthly bf) = sort (remdups (map month_key bf))"
  by (simp add: monthly_alt comp_def monthly_of_key_def Let_def)

lemma monthly_row_of_key:
  assumes "r \<in> set (monthly bf)"
  shows "r = monthly_of_key bf (district r, month r)"
proof -
  from assms obtain k where "r = monthly_of_key bf k"
    by (auto simp: monthly_alt)
  then show ?thesis by (simp add: monthly_of_key_def Let_def)
qed

lemma monthly_row_unique:
  assumes "r \<in> set (monthly bf)" "q \<in> set (monthly bf)"
    and "district r = district q" "month r = month q"
  shows "r = q"
  using monthly_row_of_key [OF assms(1)] monthly_row_of_key [OF assms(2)] assms(3,4)
  by simp

lemma district_months_sorted:
  "sorted (map month (filter (\<lambda>r. district r = d) (monthly bf)))"
proof -
  let ?le = "\<lambda>x y :: monthly_row. (district x, month x) \<le> (district y, month y)"
  have "sorted (map (\<lambda>r. (district r, month r)) (monthly bf))"
    by (simp only: monthly_keys sorted_sort)
  then have "sorted_wrt ?le (monthly bf)"
    by (simp only: sorted_map)
  then have "sorted_wrt ?le (filter (\<lambda>r. district r = d) (monthly bf))"
    by (rule sorted_wrt_filter)
  then have "sorted_wrt (\<lambda>x y. month x \<le> month y) (filter (\<lambda>r. district r = d) (monthly bf))"
    by (rule sorted_wrt_mono_rel [rotated]) (auto simp: less_eq_prod_def)
  then show ?thesis by (simp only: sorted_map)
qed

lemma sorted_hd_least:
  fixes xs :: "'a::linorder list"
  assumes "sorted xs" "x \<in> set xs"
  shows "hd xs \<le> x"
  using assms by (cases xs) auto

lemma sorted_last_greatest:
  fixes xs :: "'a::linorder list"
  assumes "sorted xs" "x \<in> set xs"
  shows "x \<le> last xs"
  using assms by (induction xs) (auto split: if_splits)

lemma trend_agg_row:
  assumes "t \<in> set (trend_agg mo)"
  shows "filter (\<lambda>r. district r = district t) mo \<noteq> [] \<and>
         first_val t = biometrics_total (hd (filter (\<lambda>r. district r = district t) mo)) \<and>
         last_val t = biometrics_total (last (filter (\<lambda>r. district r = district t) mo))"
proof -
  from assms obtain k g where kg: "(k, g) \<in> set (groupby district mo)"
    and t: "district t = k" "first_val t = biometrics_total (hd g)"
           "last_val t = biometrics_total (last g)"
    by (auto simp: trend_agg_def)
  from kg have "g = filter (\<lambda>r. district r = k) mo" "g \<noteq> []"
    using groupby_group groupby_nonempty by fastforce+
  with t show ?thesis by simp
qed

lemma trend_growth_row:
  assumes "t \<in> set (trend_growth mo)"
  shows "first_val t > 0 \<and>
         growth_rate t = idiv (last_val t - first_val t) (first_val t) \<and>
         filter (\<lambda>r. district r = district t) mo \<noteq> [] \<and>
         first_val t = biometrics_total (hd (filter (\<lambda>r. district r = district t) mo)) \<and>
         last_val t = biometrics_total (last (filter (\<lambda>r. district r = district t) mo))"
proof -
  from assms obtain t0 where t0: "t0 \<in> set (trend_agg mo)" "first_val t0 > 0"
    and t: "t = trend_row.extend t0 (growth_row.fields (idiv (last_val t0 - first_val t0) (first_val t0)))"
    by (auto simp: trend_growth_def)
  from t have "district t = district t0" "first_val t = first_val t0" "last_val t = last_val t0"
    "growth_rate t = idiv (last_val t0 - first_val t0) (first_val t0)"
    by (simp_all add: trend_row.defs growth_row.defs)
  with t0 trend_agg_row [OF t0(1)] show ?thesis by simp
qed

lemma trend_subset: "set (trend mo) \<subseteq> set (trend_growth mo)"
  using set_head10 [of "sort_values_desc growth_rate (trend_growth mo)"]
  by (simp add: trend_def set_sort_values_desc)

lemma idiv_positive: "b > 0 \<Longrightarrow> idiv a b = Fin (real_of_int a / real_of_int b)"
  by (simp add: idiv_def)

text \<open>
  C4. Every entry of the growth ranking has a strictly positive \<open>first_val\<close>, which is
  the total of its district's earliest month in the monthly series, a \<open>last_val\<close> that
  is the total of the district's latest month, and the growth rate
  (last_val - first_val) / first_val. A district whose earliest month has a total that
  is not positive is not in the ranking.
\<close>

theorem growth_rate_ranking:
  "(\<forall>t \<in> set (trend (monthly biometric_f)).
      first_val t > 0 \<and>
      growth_rate t = Fin (real_of_int (last_val t - first_val t) / real_of_int (first_val t)) \<and>
      (\<exists>r1 \<in> set (monthly biometric_f). \<exists>r2 \<in> set (monthly biometric_f).
         district r1 = district t \<and> district r2 = district t \<and>
         first_val t = biometrics_total r1 \<and> last_val t = biometrics_total r2 \<and>
         (\<forall>q \<in> set (monthly biometric_f).
            district q = district t \<longrightarrow> month r1 \<le> month q \<and> month q \<le> month r2))) \<and>
   (\<forall>r \<in> set (monthly biometric_f).
      (\<forall>q \<in> set (monthly biometric_f). district q = district r \<longrightarrow> month r \<le> month q) \<and>
      biometrics_total r \<le> 0
      \<longrightarrow> district r \<notin> district ` set (trend (monthly biometric_f)))"
proof -
  let ?mo = "monthly biometric_f"
  have ends: "first_val t > 0 \<and>
      growth_rate t = Fin (real_of_int (last_val t - first_val t) / real_of_int (first_val t)) \<and>
      (\<exists>r1 \<in> set ?mo. \<exists>r2 \<in> set ?mo.
         district r1 = district t \<and> district r2 = district t \<and>
         first_val t = biometrics_total r1 \<and> last_val t = biometrics_total r2 \<and>
         (\<forall>q \<in> set ?mo. district q = district t \<longrightarrow> month r1 \<le> month q \<and> month q \<le> month r2))"
    if t: "t \<in> set (trend ?mo)" for t
  proof -
    let ?g = "filter (\<lambda>r. district r = district t) ?mo"
    from t have "t \<in> set (trend_growth ?mo)" using trend_subset by blast
    from trend_growth_row [OF this]
    have pos: "first_val t > 0"
      and gr: "growth_rate t = idiv (last_val t - first_val t) (first_val t)"
      and ne: "?g \<noteq> []"
      and fv: "first_val t = biometrics_total (hd ?g)"
      and lv: "last_val t = biometrics_total (last ?g)"
      by simp_all
    have srt: "sorted (map month ?g)" by (rule district_months_sorted)
    from ne have "hd ?g \<in> set ?g" and "last ?g \<in> set ?g"
      by (rule hd_in_set, rule last_in_set)
    then have hd_in: "hd ?g \<in> {r \<in> set ?mo. district r = district t}"
      and last_in: "last ?g \<in> {r \<in> set ?mo. district r = district t}"
      by (simp_all only: set_filter)
    have bounds: "month (hd ?g) \<le> month q \<and> month q \<le> month (last ?g)"
      if "q \<in> set ?mo" "district q = district t" for q
    proof -
      from that have "month q \<in> set (map month ?g)" by simp
      with srt have "hd (map month ?g) \<le> month q" "month q \<le> last (map month ?g)"
        by (rule sorted_hd_least, rule sorted_last_greatest)
      with ne show ?thesis by (simp add: hd_map last_map)
    qed
    from hd_in have h1: "hd ?g \<in> set ?mo" "district (hd ?g) = district t"
      by blast+
    from last_in have h2: "last ?g \<in> set ?mo" "district (last ?g) = district t"
      by blast+
    from pos gr have "growth_rate t = Fin (real_of_int (last_val t - first_val t) / real_of_int (first_val t))"
      by (simp only: idiv_positive)
    with pos h1 h2 fv lv bounds show ?thesis by blast
  qed
  have excluded: "district r \<notin> district ` set (trend ?mo)"
    if r: "r \<in> set ?mo"
      and least: "\<forall>q \<in> set ?mo. district q = district r \<longrightarrow> month r \<le> month q"
      and zero: "biometrics_total r \<le> 0" for r
  proof
    assume "district r \<in> district ` set (trend ?mo)"
    then obtain t where t: "t \<in> set (trend ?mo)" "district t = district r" by auto
    from ends [OF t(1)] obtain r1 where r1: "r1 \<in> set ?mo" "district r1 = district t"
      "first_val t = biometrics_total r1" "first_val t > 0"
      "\<forall>q \<in> set ?mo. district q = district t \<longrightarrow> month r1 \<le> month q"
      by blast
    from r1 r t least have "month r1 = month r" by (metis order_antisym)
    with r1 r t have "r1 = r" by (metis monthly_row_unique)
    with r1 zero show False by simp
  qed
  from ends excluded show ?thesis by blast
qed

lemma ex_growth_eval:
  "map (\<lambda>r. (district r, month r, biometrics_total r)) (monthly ex_bio_growth) =
     [(''Kochi'', (2025, 1, 1), 100), (''Kochi'', (2025, 2, 1), 200),
      (''Pune'', (2025, 1, 1), 0), (''Pune'', (2025, 2, 1), 500)] \<and>
   map (\<lambda>t. (district t, first_val t, last_val t, growth_rate t)) (trend (monthly ex_bio_growth)) =
     [(''Kochi'', 100, 200, Fin 1)] \<and>
   map district (trend (monthly ex_bio_growth)) = [''Kochi'']"
  by code_simp

theorem growth_rate_ranking_witness:
  "map (\<lambda>r. (district r, month r, biometrics_total r)) (monthly ex_bio_growth) =
     [(''Kochi'', (2025, 1, 1), 100), (''Kochi'', (2025, 2, 1), 200),
      (''Pune'', (2025, 1, 1), 0), (''Pune'', (2025, 2, 1), 500)] \<and>
   map (\<lambda>t. (district t, first_val t, last_val t, growth_rate t)) (trend (monthly ex_bio_growth)) =
     [(''Kochi'', 100, 200, Fin 1)] \<and>
   list_all (\<lambda>t. first_val t > 0 \<and>
       growth_rate t = Fin (real_of_int (last_val t - first_val t) / real_of_int (first_val t)))
     (trend (monthly ex_bio_growth)) \<and>
   ''Pune'' \<notin> district ` set (trend (monthly ex_bio_growth))"
proof -
  from ex_growth_eval
  have "map district (trend (monthly ex_bio_growth)) = [''Kochi'']"
    by (elim conjE)
  then have "set (map district (trend (monthly ex_bio_growth))) = {''Kochi''}"
    by (simp only: list.set)
  then have absent: "''Pune'' \<notin> district ` set (trend (monthly ex_bio_growth))"
    by (simp only: set_map) simp
  from growth_rate_ranking [of ex_bio_growth]
  have "list_all (\<lambda>t. first_val t > 0 \<and>
       growth_rate t = Fin (real_of_int (last_val t - first_val t) / real_of_int (first_val t)))
     (trend (monthly ex_bio_growth))"
    by (simp add: list_all_iff)
  with absent ex_growth_eval show ?thesis by blast
qed

section \<open>Properties of \<open>transform\<close>\<close>

lemma map_nth_filter_upt:
  "map (\<lambda>i. g (xs ! i)) (filter (\<lambda>i. P (xs ! i)) [0..<length xs]) = map g (filter P xs)"
proof (induction xs rule: rev_induct)
  case Nil
  then show ?case by simp
next
  case (snoc x xs)
  have old: "filter (\<lambda>i. P ((xs @ [x]) ! i)) [0..<length xs] = filter (\<lambda>i. P (xs ! i)) [0..<length xs]"
    by (rule filter_cong) (simp_all add: nth_append)
  have "map (\<lambda>i. g ((xs @ [x]) ! i)) (filter (\<lambda>i. P (xs ! i)) [0..<length xs]) =
        map (\<lambda>i. g (xs ! i)) (filter (\<lambda>i. P (xs ! i)) [0..<length xs])"
    by (rule map_cong) (simp_all add: nth_append)
  with snoc.IH old show ?case by simp
qed

lemma length_filter_take:
  assumes "i \<le> length xs"
  shows "length (filter (\<lambda>j. P (xs ! j)) [0..<i]) = length (filter P (take i xs))"
proof -
  have "filter (\<lambda>j. P (xs ! j)) [0..<i] = filter (\<lambda>j. P (take i xs ! j)) [0..<length (take i xs)]"
    using assms by (intro filter_cong) simp_all
  moreover have "length (map (\<lambda>j. take i xs ! j) (filter (\<lambda>j. P (take i xs ! j)) [0..<length (take i xs)])) =
      length (map (\<lambda>x. x) (filter P (take i xs)))"
    by (rule arg_cong [where f = length]) (rule map_nth_filter_upt)
  ultimately show ?thesis by (simp only: length_map)
qed

lemma nth_filter_upt:
  assumes "i < n" "Q i"
  shows "filter Q [0..<n] ! length (filter Q [0..<i]) = i"
    and "length (filter Q [0..<i]) < length (filter Q [0..<n])"
proof -
  from assms(1) have "[0..<n] = [0..<i] @ i # [Suc i..<n]"
    by (metis less_imp_le_nat upt_add_eq_append upt_conv_Cons le_add_diff_inverse zero_le)
  with assms(2) have split: "filter Q [0..<n] = filter Q [0..<i] @ i # filter Q [Suc i..<n]"
    by simp
  show "filter Q [0..<n] ! length (filter Q [0..<i]) = i"
    by (simp only: split nth_append_length)
  show "length (filter Q [0..<i]) < length (filter Q [0..<n])"
    by (simp add: split)
qed

lemma length_scatter: "length (scatter js vs out) = length out"
  by (induction js vs out rule: scatter.induct) simp_all

lemma scatter_other: "j \<notin> set js \<Longrightarrow> scatter js vs out ! j = out ! j"
  by (induction js vs out rule: scatter.induct) simp_all

lemma scatter_nth:
  assumes "distinct js" "length vs = length js" "\<forall>j \<in> set js. j < length out" "p < length js"
  shows "scatter js vs out ! (js ! p) = vs ! p"
  using assms
proof (induction js vs out arbitrary: p rule: scatter.induct)
  case (1 i js v vs out)
  show ?case
  proof (cases p)
    case 0
    from "1.prems" have "i \<notin> set js" "i < length out" by simp_all
    then show ?thesis by (simp add: 0 scatter_other)
  next
    case (Suc p')
    from "1.prems" Suc have "scatter js vs (out[i := v]) ! (js ! p') = vs ! p'"
      by (intro "1.IH") simp_all
    then show ?thesis by (simp add: Suc)
  qed
qed simp_all

lemma fold_groups_nth:
  fixes key :: "'r \<Rightarrow> 'k::linorder" and f :: "int list \<Rightarrow> fl list" and df :: "'r list"
  defines "idx \<equiv> \<lambda>k. filter (\<lambda>j. key (df ! j) = k) [0..<length df]"
  assumes shape: "\<forall>a. length (f a) = length a"
    and i: "i < length df" and len: "length out = length df" and dist: "distinct ks"
  shows "fold (\<lambda>(k, idxs) out. scatter idxs (f (map (\<lambda>j. col (df ! j)) idxs)) out)
           (map (\<lambda>k. (k, idx k)) ks) out ! i =
         (if key (df ! i) \<in> set ks
          then f (map (\<lambda>j. col (df ! j)) (idx (key (df ! i))))
                 ! length (filter (\<lambda>j. key (df ! j) = key (df ! i)) [0..<i])
          else out ! i)"
  using len dist
proof (induction ks arbitrary: out)
  case Nil
  then show ?case by simp
next
  case (Cons k ks)
  let ?vals = "f (map (\<lambda>j. col (df ! j)) (idx k))"
  let ?out = "scatter (idx k) ?vals out"
  have len': "length ?out = length df" by (simp add: length_scatter Cons.prems)
  from Cons.prems have dist': "distinct ks" and k: "k \<notin> set ks" by simp_all
  note IH = Cons.IH [OF len' dist']
  show ?case
  proof (cases "key (df ! i) = k")
    case True
    let ?p = "length (filter (\<lambda>j. key (df ! j) = k) [0..<i])"
    from i True have at: "idx k ! ?p = i" and p: "?p < length (idx k)"
      unfolding idx_def by (simp_all add: nth_filter_upt)
    have "?out ! (idx k ! ?p) = ?vals ! ?p"
    proof (rule scatter_nth)
      show "distinct (idx k)" by (simp add: idx_def)
      show "length ?vals = length (idx k)" using shape by simp
      show "\<forall>j \<in> set (idx k). j < length out" by (simp add: idx_def Cons.prems)
      show "?p < length (idx k)" by (rule p)
    qed
    with at have "?out ! i = ?vals ! ?p" by simp
    with IH True k show ?thesis by simp
  next
    case False
    with i have "i \<notin> set (idx k)" by (simp add: idx_def)
    then have "?out ! i = out ! i" by (rule scatter_other)
    with IH False show ?thesis by simp
  qed
qed

lemma length_fold_scatter:
  "length (fold (\<lambda>(k, idxs) out. scatter idxs (g idxs) out) gs out) = length out"
  by (induction gs arbitrary: out) (simp_all add: length_scatter split_def)

lemma length_transform: "length (transform key col f df) = length df"
  by (simp add: transform_def length_fold_scatter)

lemma transform_nth:
  assumes shape: "\<forall>a. length (f a) = length a" and i: "i < length df"
  shows "transform key col f df ! i =
         f (map col (filter (\<lambda>r. key r = key (df ! i)) df))
           ! length (filter (\<lambda>r. key r = key (df ! i)) (take i df))"
proof -
  let ?k = "key (df ! i)"
  let ?ks = "sort (remdups (map key df))"
  from i have mem: "?k \<in> set ?ks" by simp
  have "transform key col f df ! i =
      f (map (\<lambda>j. col (df ! j)) (filter (\<lambda>j. key (df ! j) = ?k) [0..<length df]))
        ! length (filter (\<lambda>j. key (df ! j) = ?k) [0..<i])"
    unfolding transform_def group_indices_def
    using fold_groups_nth [where f = f and df = df and i = i and out = "replicate (length df) NaN"
        and ks = ?ks and key = key and col = col, OF shape i] mem
    by simp
  also have "map (\<lambda>j. col (df ! j)) (filter (\<lambda>j. key (df ! j) = ?k) [0..<length df]) =
      map col (filter (\<lambda>r. key r = ?k) df)"
    by (rule map_nth_filter_upt)
  also from i have "length (filter (\<lambda>j. key (df ! j) = ?k) [0..<i]) =
      length (filter (\<lambda>r. key r = ?k) (take i df))"
    by (intro length_filter_take) simp
  finally show ?thesis .
qed



lemma sum_list_constant:
  fixes c :: int
  assumes "\<forall>x \<in> set a. x = c"
  shows "sum_list a = int (length a) * c"
  using assms by (induction a) (simp_all add: algebra_simps)

lemma mean_constant:
  assumes "\<forall>x \<in> set a. x = c" "a \<noteq> []"
  shows "mean a = real_of_int c"
proof -
  from assms(2) have "real (length a) \<noteq> 0" by simp
  then show ?thesis
    by (simp add: mean_def sum_list_constant [OF assms(1)])
qed

lemma variance_constant:
  assumes "\<forall>x \<in> set a. x = c" "a \<noteq> []"
  shows "variance a = 0"
proof -
  have "map (\<lambda>x. (real_of_int x - mean a)\<^sup>2) a = map (\<lambda>x. 0) a"
    using assms by (simp add: mean_constant [OF assms])
  then have "sum_list (map (\<lambda>x. (real_of_int x - mean a)\<^sup>2) a) = 0"
    by (simp only:) simp
  then show ?thesis by (simp add: variance_def)
qed

lemma zscore_at_constant:
  assumes "\<forall>x \<in> set a. x = c" "a \<noteq> []"
  shows "zscore_at a c = NaN"
  by (simp add: zscore_at_def std_def mean_constant [OF assms] variance_constant [OF assms])

section \<open>Properties of the z-score column\<close>

lemma set_z_score_simps:
  "district (set_z_score r z) = district r"
  "month (set_z_score r z) = month r"
  "biometrics_total (set_z_score r z) = biometrics_total r"
  "z_score (set_z_score r z) = z"
  by (simp_all add: set_z_score_def monthly_row.defs monthly_z_row.defs)

lemma with_z_score_nth_map:
  assumes shape: "\<forall>a. length (zs a) = length a"
  shows "with_z_score zs mo =
         map (\<lambda>i. set_z_score (mo ! i) (district_z zs mo i)) [0..<length mo]"
proof (rule nth_equalityI)
  show "length (with_z_score zs mo) =
      length (map (\<lambda>i. set_z_score (mo ! i) (district_z zs mo i)) [0..<length mo])"
    by (simp add: with_z_score_def length_transform)
next
  fix i assume "i < length (with_z_score zs mo)"
  then have i: "i < length mo"
    by (simp add: with_z_score_def length_transform)
  have "transform district biometrics_total zs mo ! i = district_z zs mo i"
    unfolding district_z_def district_totals_def
    by (rule transform_nth [OF shape i])
  with i show "with_z_score zs mo ! i =
      map (\<lambda>i. set_z_score (mo ! i) (district_z zs mo i)) [0..<length mo] ! i"
    by (simp add: with_z_score_def length_transform)
qed

lemma with_z_score_row:
  assumes shape: "\<forall>a. length (zs a) = length a" and r: "r \<in> set (with_z_score zs mo)"
  shows "\<exists>i < length mo. r = set_z_score (mo ! i) (district_z zs mo i)"
proof -
  from r have "r \<in> (\<lambda>i. set_z_score (mo ! i) (district_z zs mo i)) ` set [0..<length mo]"
    by (simp only: with_z_score_nth_map [OF shape] set_map)
  then show ?thesis by auto
qed

lemma filter_nth_position:
  assumes "i < length xs" "P (xs ! i)"
  shows "filter P xs ! length (filter P (take i xs)) = xs ! i"
    and "length (filter P (take i xs)) < length (filter P xs)"
proof -
  from assms(1) have "xs = take i xs @ xs ! i # drop (Suc i) xs"
    by (rule id_take_nth_drop)
  then have "filter P xs = filter P (take i xs @ xs ! i # drop (Suc i) xs)"
    by simp
  with assms(2) have split:
    "filter P xs = filter P (take i xs) @ xs ! i # filter P (drop (Suc i) xs)"
    by simp
  show "filter P xs ! length (filter P (take i xs)) = xs ! i"
    by (simp only: split nth_append_length)
  have "length (filter P xs) = length (filter P (take i xs)) + Suc (length (filter P (drop (Suc i) xs)))"
    by (simp only: split length_append list.size)
  then show "length (filter P (take i xs)) < length (filter P xs)"
    by simp
qed

lemma district_totals_position:
  assumes "i < length mo"
  shows "district_totals mo (district (mo ! i))
           ! length (filter (\<lambda>q. district q = district (mo ! i)) (take i mo)) =
         biometrics_total (mo ! i)"
    and "length (filter (\<lambda>q. district q = district (mo ! i)) (take i mo)) <
         length (district_totals mo (district (mo ! i)))"
proof -
  let ?P = "\<lambda>q. district q = district (mo ! i)"
  have P: "?P (mo ! i)" by simp
  note pos = filter_nth_position [of i mo ?P, OF assms P]
  from pos(2) show "length (filter ?P (take i mo)) < length (district_totals mo (district (mo ! i)))"
    by (simp add: district_totals_def)
  with pos show "district_totals mo (district (mo ! i)) ! length (filter ?P (take i mo)) =
      biometrics_total (mo ! i)"
    by (simp add: district_totals_def)
qed

lemma district_z_single_month:
  assumes single: "\<forall>x. zs [x] = [NaN]" and i: "i < length mo"
    and few: "length (filter (\<lambda>q. district q = district (mo ! i)) mo) < 2"
  shows "district_z zs mo i = NaN"
proof -
  let ?a = "district_totals mo (district (mo ! i))"
  let ?p = "length (filter (\<lambda>q. district q = district (mo ! i)) (take i mo))"
  from district_totals_position(2) [OF i] have p: "?p < length ?a" .
  from few have "length ?a < 2" by (simp add: district_totals_def)
  with p have "length ?a = 1" and p0: "?p = 0" by arith+
  then obtain x where "?a = [x]" by (cases ?a) simp_all
  with single p0 show ?thesis by (simp add: district_z_def)
qed

lemma latest_month_Max:
  assumes "mo \<noteq> []"
  shows "latest_month mo = Some (Max (month ` set mo))"
proof -
  from assms obtain r rs where mo: "mo = r # rs" by (cases mo) auto
  have "fold max (map month rs) (month r) = Max (set (month r # map month rs))"
    by (rule Max.set_eq_fold [symmetric])
  then show ?thesis by (simp add: latest_month_def mo)
qed

lemma spikes_positions:
  assumes shape: "\<forall>a. length (zs a) = length a"
  shows "spikes zs mo =
     map (\<lambda>i. set_z_score (mo ! i) (district_z zs mo i))
       (filter (\<lambda>i. month (mo ! i) = Max (month ` set mo) \<and> fgt (district_z zs mo i) 3)
          [0..<length mo])"
proof -
  have "filter ((\<lambda>r. Some (month r) = latest_month mo \<and> fgt (z_score r) 3) \<circ>
                (\<lambda>i. set_z_score (mo ! i) (district_z zs mo i))) [0..<length mo] =
        filter (\<lambda>i. month (mo ! i) = Max (month ` set mo) \<and> fgt (district_z zs mo i) 3)
          [0..<length mo]"
  proof (rule filter_cong [OF refl])
    fix i assume "i \<in> set [0..<length mo]"
    then have "mo \<noteq> []" by auto
    then have "latest_month mo = Some (Max (month ` set mo))" by (rule latest_month_Max)
    then show "((\<lambda>r. Some (month r) = latest_month mo \<and> fgt (z_score r) 3) \<circ>
                (\<lambda>i. set_z_score (mo ! i) (district_z zs mo i))) i =
        (month (mo ! i) = Max (month ` set mo) \<and> fgt (district_z zs mo i) 3)"
      by (simp add: set_z_score_simps)
  qed
  then show ?thesis
    by (simp only: spikes_def with_z_score_nth_map [OF shape] filter_map)
qed

lemma spikes_row:
  assumes shape: "\<forall>a. length (zs a) = length a" and r: "r \<in> set (spikes zs mo)"
  shows "\<exists>i < length mo. r = set_z_score (mo ! i) (district_z zs mo i) \<and>
           month (mo ! i) = Max (month ` set mo) \<and> fgt (district_z zs mo i) 3"
proof -
  from r have "r \<in> (\<lambda>i. set_z_score (mo ! i) (district_z zs mo i)) `
      set (filter (\<lambda>i. month (mo ! i) = Max (month ` set mo) \<and> fgt (district_z zs mo i) 3)
          [0..<length mo])"
    by (simp only: spikes_positions [OF shape] set_map)
  then show ?thesis by auto
qed

lemma spikes_two_months:
  assumes shape: "\<forall>a. length (zs a) = length a" and single: "\<forall>x. zs [x] = [NaN]"
    and r: "r \<in> set (spikes zs mo)"
  shows "2 \<le> length (filter (\<lambda>q. district q = district r) mo)"
proof (rule ccontr)
  assume "\<not> 2 \<le> length (filter (\<lambda>q. district q = district r) mo)"
  then have few: "length (filter (\<lambda>q. district q = district r) mo) < 2" by simp
  from spikes_row [OF shape r] obtain i where i: "i < length mo"
    and eq: "r = set_z_score (mo ! i) (district_z zs mo i)"
    and gt: "fgt (district_z zs mo i) 3"
    by blast
  from eq have "district r = district (mo ! i)" by (simp add: set_z_score_simps)
  with few have "length (filter (\<lambda>q. district q = district (mo ! i)) mo) < 2" by simp
  with single i have "district_z zs mo i = NaN" by (rule district_z_single_month)
  with gt show False by simp
qed

text \<open>The exact z-score has the two facts asked of \<open>zs\<close>.\<close>

lemma length_zscore: "length (zscore a) = length a"
  by (simp add: zscore_def)

lemma zscore_single: "zscore [x] = [NaN]"
proof -
  have "zscore_at [x] x = NaN" by (rule zscore_at_constant) simp_all
  then show ?thesis by (simp add: zscore_def)
qed

lemma district_z_zscore:
  assumes "i < length mo"
  shows "district_z zscore mo i =
         zscore_at (district_totals mo (district (mo ! i))) (biometrics_total (mo ! i))"
  using district_totals_position [OF assms]
  by (simp add: district_z_def zscore_def)


lemma ex_const_monthly:
  "monthly ex_bio_const =
     [\<lparr>district = ''Kochi'', month = (2025, 1, 1), m_bio_age_5_17 = 40, m_bio_age_17_plus = 60,
       biometrics_total = 100\<rparr>,
      \<lparr>district = ''Kochi'', month = (2025, 2, 1), m_bio_age_5_17 = 80, m_bio_age_17_plus = 20,
       biometrics_total = 100\<rparr>,
      \<lparr>district = ''Kochi'', month = (2025, 3, 1), m_bio_age_5_17 = 50, m_bio_age_17_plus = 50,
       biometrics_total = 100\<rparr>]"
  by code_simp

lemma z_score_constant_district:
  assumes r: "r \<in> set (with_z_score zscore mo)"
    and const: "\<forall>q \<in> set mo. district q = district r \<longrightarrow> biometrics_total q = biometrics_total r"
  shows "z_score r = NaN"
proof -
  have shape: "\<forall>a. length (zscore a) = length a" by (simp add: length_zscore)
  from with_z_score_row [OF shape r] obtain i where i: "i < length mo"
    and eq: "r = set_z_score (mo ! i) (district_z zscore mo i)"
    by blast
  let ?a = "district_totals mo (district (mo ! i))"
  from eq have d: "district r = district (mo ! i)"
    and b: "biometrics_total r = biometrics_total (mo ! i)"
    and z: "z_score r = district_z zscore mo i"
    by (simp_all add: set_z_score_simps)
  have all: "\<forall>x \<in> set ?a. x = biometrics_total (mo ! i)"
  proof
    fix x assume "x \<in> set ?a"
    then obtain q where "q \<in> set mo" "district q = district (mo ! i)" "x = biometrics_total q"
      unfolding district_totals_def by auto
    with const d b show "x = biometrics_total (mo ! i)" by metis
  qed
  from i have "biometrics_total (mo ! i) \<in> set ?a"
    unfolding district_totals_def by simp
  then have ne: "?a \<noteq> []" by auto
  from zscore_at_constant [OF all ne] z district_z_zscore [OF i] show ?thesis by (simp only:)
qed

lemma spikes_subset: "set (spikes zs mo) \<subseteq> set (with_z_score zs mo)"
  by (auto simp: spikes_def)

text \<open>
  C2, as stated, fails: a district with the total 100 in each of its three months. The
  standard deviation is 0, each z-score is \<^verbatim>\<open>0/0\<close>, and the column holds NaN, not 0,
  in every month.
\<close>

theorem constant_series_zscore_zero_counterexample:
  "map (\<lambda>r. (district r, month r, biometrics_total r))
       (with_z_score zscore (monthly ex_bio_const)) =
     [(''Kochi'', (2025, 1, 1), 100), (''Kochi'', (2025, 2, 1), 100),
      (''Kochi'', (2025, 3, 1), 100)] \<and>
   map z_score (with_z_score zscore (monthly ex_bio_const)) = [NaN, NaN, NaN] \<and>
   NaN \<noteq> Fin 0"
proof -
  have shape: "\<forall>a. length (zscore a) = length a" by (simp add: length_zscore)
  have "zscore_at [100, 100, 100] 100 = NaN"
    by (rule zscore_at_constant) simp_all
  then show ?thesis
    by (simp add: with_z_score_nth_map [OF shape] ex_const_monthly set_z_score_simps
        district_z_def district_totals_def zscore_def)
qed

text \<open>
  C2, amended. For every district whose monthly series has the same total in every
  observed month, the z-score of every month of that district is NaN (undefined), and
  no month of that district is emitted as a spike.
\<close>

theorem constant_series_zscore_nan:
  "\<forall>r \<in> set (with_z_score zscore mo).
     (\<forall>q \<in> set mo. district q = district r \<longrightarrow> biometrics_total q = biometrics_total r)
     \<longrightarrow> z_score r = NaN \<and> r \<notin> set (spikes zscore mo)"
proof (intro ballI impI)
  fix r
  assume r: "r \<in> set (with_z_score zscore mo)"
    and const: "\<forall>q \<in> set mo. district q = district r \<longrightarrow> biometrics_total q = biometrics_total r"
  then have "z_score r = NaN" by (rule z_score_constant_district)
  then show "z_score r = NaN \<and> r \<notin> set (spikes zscore mo)"
    by (simp add: spikes_def)
qed

theorem constant_series_zscore_nan_witness:
  "map (\<lambda>r. (district r, biometrics_total r)) (monthly ex_bio_const) =
     [(''Kochi'', 100), (''Kochi'', 100), (''Kochi'', 100)] \<and>
   list_all (\<lambda>r. z_score r = NaN) (with_z_score zscore (monthly ex_bio_const)) \<and>
   length (with_z_score zscore (monthly ex_bio_const)) = 3 \<and>
   spikes zscore (monthly ex_bio_const) = []"
proof -
  let ?mo = "monthly ex_bio_const"
  have shape: "\<forall>a. length (zscore a) = length a" by (simp add: length_zscore)
  have const: "\<forall>q \<in> set ?mo. biometrics_total q = 100"
    by (simp add: ex_const_monthly)
  have same: "\<forall>q \<in> set ?mo. district q = district r \<longrightarrow> biometrics_total q = biometrics_total r"
    if "r \<in> set (with_z_score zscore ?mo)" for r
  proof -
    from with_z_score_row [OF shape that] obtain i where "i < length ?mo"
      "r = set_z_score (?mo ! i) (district_z zscore ?mo i)"
      by blast
    then have "biometrics_total r = biometrics_total (?mo ! i)" "?mo ! i \<in> set ?mo"
      by (simp_all add: set_z_score_simps)
    with const have "biometrics_total r = 100" by simp
    with const show ?thesis by simp
  qed
  with constant_series_zscore_nan [of ?mo]
  have nan: "\<forall>r \<in> set (with_z_score zscore ?mo). z_score r = NaN \<and> r \<notin> set (spikes zscore ?mo)"
    by blast
  have no_spikes: "spikes zscore ?mo = []"
  proof (rule ccontr)
    assume "spikes zscore ?mo \<noteq> []"
    then obtain r where "r \<in> set (spikes zscore ?mo)"
      by (cases "spikes zscore ?mo") auto
    with spikes_subset nan show False by blast
  qed
  from nan have all_nan: "list_all (\<lambda>r. z_score r = NaN) (with_z_score zscore ?mo)"
    by (simp add: list_all_iff)
  have "length (with_z_score zscore ?mo) = 3"
    by (simp add: with_z_score_nth_map [OF shape] ex_const_monthly)
  moreover have "map (\<lambda>r. (district r, biometrics_total r)) ?mo =
     [(''Kochi'', 100), (''Kochi'', 100), (''Kochi'', 100)]"
    by (simp add: ex_const_monthly)
  ultimately show ?thesis using no_spikes all_nan by blast
qed

section \<open>Properties of the spike alerts\<close>

lemma ex_z: "zscore_at [0, 0, 0, 0, 0, 0, 0, 0, 0, 0, 11] 11 = Fin (10 / sqrt 10)"
  by (simp add: zscore_at_def mean_def std_def variance_def)

lemma ex_z_gt: "fgt (Fin (10 / sqrt 10)) 3"
proof -
  have "sqrt 10 < 10 / 3"
    by (rule real_less_lsqrt) (simp_all add: power2_eq_square)
  moreover have "0 < sqrt 10" by simp
  ultimately have "3 < 10 / sqrt 10"
    by (simp add: field_simps)
  then show ?thesis by simp
qed

lemma ex_z_pune: "zscore_at [100, 500] 500 = Fin 1"
proof -
  have "sqrt 40000 = 200"
    by (rule real_sqrt_unique) simp_all
  then show ?thesis
    by (simp add: zscore_at_def mean_def std_def variance_def)
qed

lemma ex_spike_monthly:
  "monthly ex_bio_spike =
     [\<lparr>district = ''Goa'', month = (2024, 1, 1), m_bio_age_5_17 = 0, m_bio_age_17_plus = 0,
        biometrics_total = 0\<rparr>,
      \<lparr>district = ''Goa'', month = (2024, 2, 1), m_bio_age_5_17 = 0, m_bio_age_17_plus = 0,
        biometrics_total = 0\<rparr>,
      \<lparr>district = ''Goa'', month = (2024, 3, 1), m_bio_age_5_17 = 0, m_bio_age_17_plus = 0,
        biometrics_total = 0\<rparr>,
      \<lparr>district = ''Goa'', month = (2024, 4, 1), m_bio_age_5_17 = 0, m_bio_age_17_plus = 0,
        biometrics_total = 0\<rparr>,
      \<lparr>district = ''Goa'', month = (2024, 5, 1), m_bio_age_5_17 = 0, m_bio_age_17_plus = 0,
        biometrics_total = 0\<rparr>,
      \<lparr>district = ''Goa'', month = (2024, 6, 1), m_bio_age_5_17 = 0, m_bio_age_17_plus = 0,
        biometrics_total = 0\<rparr>,
      \<lparr>district = ''Goa'', month = (2024, 7, 1), m_bio_age_5_17 = 0, m_bio_age_17_plus = 0,
        biometrics_total = 0\<rparr>,
      \<lparr>district = ''Goa'', month = (2024, 8, 1), m_bio_age_5_17 = 0, m_bio_age_17_plus = 0,
        biometrics_total = 0\<rparr>,
      \<lparr>district = ''Goa'', month = (2024, 9, 1), m_bio_age_5_17 = 0, m_bio_age_17_plus = 0,
        biometrics_total = 0\<rparr>,
      \<lparr>district = ''Goa'', month = (2024, 10, 1), m_bio_age_5_17 = 0, m_bio_age_17_plus = 0,
        biometrics_total = 0\<rparr>,
      \<lparr>district = ''Goa'', month = (2024, 11, 1), m_bio_age_5_17 = 4, m_bio_age_17_plus = 7,
        biometrics_total = 11\<rparr>,
      \<lparr>district = ''Mahe'', month = (2024, 11, 1), m_bio_age_5_17 = 400, m_bio_age_17_plus = 600,
        biometrics_total = 1000\<rparr>,
      \<lparr>district = ''Pune'', month = (2024, 10, 1), m_bio_age_5_17 = 40, m_bio_age_17_plus = 60,
        biometrics_total = 100\<rparr>,
      \<lparr>district = ''Pune'', month = (2024, 11, 1), m_bio_age_5_17 = 200, m_bio_age_17_plus = 300,
        biometrics_total = 500\<rparr>]"
  by code_simp

text \<open>
  C3. Let \<open>zs\<close> be the z-score function applied to the totals of each district, with
  one entry for each value and NaN for a single value. The z-score column holds, at
  every row, the entry of the z-scores of the row's district that stands at the row's
  place within its district. The spike table holds exactly the rows of the monthly
  series, in their order and with their z-score, whose month is the maximum month of the
  whole series, over all districts, and whose per-district z-score exceeds 3. A row
  of a district with fewer than 2 rows (observed months) has the z-score NaN, and every
  emitted row is of a district with at least 2 rows.
\<close>

theorem spikes_exactly_latest_month_above_three:
  assumes shape: "\<forall>a. length (zs a) = length a" and single: "\<forall>x. zs [x] = [NaN]"
  shows "with_z_score zs mo =
           map (\<lambda>i. set_z_score (mo ! i) (district_z zs mo i)) [0..<length mo] \<and>
         spikes zs mo =
           map (\<lambda>i. set_z_score (mo ! i) (district_z zs mo i))
             (filter (\<lambda>i. month (mo ! i) = Max (month ` set mo) \<and> fgt (district_z zs mo i) 3)
                [0..<length mo]) \<and>
         (\<forall>i < length mo. length (filter (\<lambda>q. district q = district (mo ! i)) mo) < 2
            \<longrightarrow> district_z zs mo i = NaN) \<and>
         (\<forall>r \<in> set (spikes zs mo). 2 \<le> length (filter (\<lambda>q. district q = district r) mo))"
proof (intro conjI allI ballI impI)
  show "with_z_score zs mo =
      map (\<lambda>i. set_z_score (mo ! i) (district_z zs mo i)) [0..<length mo]"
    using shape by (rule with_z_score_nth_map)
next
  show "spikes zs mo =
      map (\<lambda>i. set_z_score (mo ! i) (district_z zs mo i))
        (filter (\<lambda>i. month (mo ! i) = Max (month ` set mo) \<and> fgt (district_z zs mo i) 3)
           [0..<length mo])"
    using shape by (rule spikes_positions)
next
  fix i assume "i < length mo" "length (filter (\<lambda>q. district q = district (mo ! i)) mo) < 2"
  with single show "district_z zs mo i = NaN" by (rule district_z_single_month)
next
  fix r assume "r \<in> set (spikes zs mo)"
  with shape single show "2 \<le> length (filter (\<lambda>q. district q = district r) mo)"
    by (rule spikes_two_months)
qed

theorem spikes_exactly_latest_month_above_three_witness:
  "(\<forall>a. length (zscore a) = length a) \<and> (\<forall>x. zscore [x] = [NaN]) \<and>
   latest_month (monthly ex_bio_spike) = Some (2024, 11, 1) \<and>
   map (\<lambda>i. (district (monthly ex_bio_spike ! i), month (monthly ex_bio_spike ! i),
              district_z zscore (monthly ex_bio_spike) i)) [10, 11, 12, 13] =
     [(''Goa'', (2024, 11, 1), Fin (10 / sqrt 10)), (''Mahe'', (2024, 11, 1), NaN),
      (''Pune'', (2024, 10, 1), Fin (- 1)), (''Pune'', (2024, 11, 1), Fin 1)] \<and>
   spikes zscore (monthly ex_bio_spike) =
     [set_z_score \<lparr>district = ''Goa'', month = (2024, 11, 1), m_bio_age_5_17 = 4,
        m_bio_age_17_plus = 7, biometrics_total = 11\<rparr> (Fin (10 / sqrt 10))]"
proof -
  let ?mo = "monthly ex_bio_spike"
  let ?P = "\<lambda>i. month (?mo ! i) = Max (month ` set ?mo) \<and> fgt (district_z zscore ?mo i) 3"
  have shape: "\<forall>a. length (zscore a) = length a" by (simp add: length_zscore)
  have single: "\<forall>x. zscore [x] = [NaN]" by (simp add: zscore_single)
  note claim = spikes_exactly_latest_month_above_three [of zscore ?mo, OF shape single]
  have len: "length ?mo = 14" by (simp add: ex_spike_monthly)
  have latest: "latest_month ?mo = Some (2024, 11, 1)"
    by (simp add: ex_spike_monthly latest_month_def)
  have "?mo \<noteq> []" using len by auto
  from latest_month_Max [OF this] latest have mx: "Max (month ` set ?mo) = (2024, 11, 1)"
    by simp
  have goa: "district_totals ?mo ''Goa'' = [0, 0, 0, 0, 0, 0, 0, 0, 0, 0, 11]"
    and mahe: "district_totals ?mo ''Mahe'' = [1000]"
    and pune: "district_totals ?mo ''Pune'' = [100, 500]"
    by (simp_all add: ex_spike_monthly district_totals_def)
  have z10: "district_z zscore ?mo 10 = Fin (10 / sqrt 10)"
    using district_z_zscore [of 10 ?mo] len goa ex_z by (simp add: ex_spike_monthly)
  have z13: "district_z zscore ?mo 13 = Fin 1"
    using district_z_zscore [of 13 ?mo] len pune ex_z_pune by (simp add: ex_spike_monthly)
  have "length (filter (\<lambda>q. district q = district (?mo ! 11)) ?mo) < 2"
    by (simp add: ex_spike_monthly)
  with claim len have z11: "district_z zscore ?mo 11 = NaN" by simp
  have "sqrt 40000 = 200"
    by (rule real_sqrt_unique) simp_all
  then have "zscore_at [100, 500] 100 = Fin (- 1)"
    by (simp add: zscore_at_def mean_def std_def variance_def)
  then have z12: "district_z zscore ?mo 12 = Fin (- 1)"
    using district_z_zscore [of 12 ?mo] len pune by (simp add: ex_spike_monthly)
  have months: "map (\<lambda>i. month (?mo ! i)) [0, 1, 2, 3, 4, 5, 6, 7, 8, 9, 10, 11, 12, 13] =
      [(2024, 1, 1), (2024, 2, 1), (2024, 3, 1), (2024, 4, 1), (2024, 5, 1), (2024, 6, 1),
       (2024, 7, 1), (2024, 8, 1), (2024, 9, 1), (2024, 10, 1), (2024, 11, 1), (2024, 11, 1),
       (2024, 10, 1), (2024, 11, 1)]"
    by (simp add: ex_spike_monthly)
  have upt: "[0..<14] = [0, 1, 2, 3, 4, 5, 6, 7, 8, 9, 10, 11, 12, 13::nat]"
    by code_simp
  have early: "\<not> ?P i" if "i \<in> set [0, 1, 2, 3, 4, 5, 6, 7, 8, 9, 12::nat]" for i
    using that months by (auto simp: mx)
  have P10: "?P 10" using months z10 ex_z_gt by (simp add: mx)
  have P11: "\<not> ?P 11" using z11 by simp
  have P13: "\<not> ?P 13" using z13 by simp
  have "filter ?P [0..<length ?mo] = [10]"
    unfolding len upt using early P10 P11 P13 by simp
  with claim z10 have sp: "spikes zscore ?mo =
     [set_z_score \<lparr>district = ''Goa'', month = (2024, 11, 1), m_bio_age_5_17 = 4,
        m_bio_age_17_plus = 7, biometrics_total = 11\<rparr> (Fin (10 / sqrt 10))]"
    by (simp add: ex_spike_monthly)
  have rows: "map (\<lambda>i. (district (?mo ! i), month (?mo ! i))) [10, 11, 12, 13] =
     [(''Goa'', (2024, 11, 1)), (''Mahe'', (2024, 11, 1)),
      (''Pune'', (2024, 10, 1)), (''Pune'', (2024, 11, 1))]"
    by (simp add: ex_spike_monthly)
  from shape single latest rows z10 z11 z12 z13 sp show ?thesis by simp
qed

section \<open>Properties of the store: the source tables are not written\<close>

lemma exec_frame:
  assumes sep: "separated P ts s" and ok: "\<not> writes_alias ts c" and ex: "exec c s = Some s'"
  shows "separated P (aliases ts c) s' \<and> (\<forall>a \<in> P. heap s' a = heap s a)"
proof (cases c)
  case (New v args op)
  from ex New obtain fr where s': "s' = s\<lparr>env := (env s)(v \<mapsto> next_addr s),
      heap := (heap s)(next_addr s \<mapsto> fr), next_addr := Suc (next_addr s)\<rparr>"
    by (auto split: option.splits)
  from sep have fresh: "next_addr s \<notin> P"
    by (auto simp: separated_def)
  with sep show ?thesis
    by (auto simp: separated_def s' New less_Suc_eq)
next
  case (SetItem v op)
  from ex SetItem obtain a fr' where a: "env s v = Some a"
    and s': "s' = s\<lparr>heap := (heap s)(a \<mapsto> fr')\<rparr>"
    by (auto split: option.splits)
  from ok SetItem have "v \<notin> set ts" by simp
  with sep a have "a \<notin> P" by (auto simp: separated_def)
  with sep show ?thesis
    by (auto simp: separated_def s' SetItem)
next
  case (Bind v w)
  from ex Bind obtain a where a: "env s w = Some a"
    and s': "s' = s\<lparr>env := (env s)(v \<mapsto> a)\<rparr>"
    by (auto split: option.splits)
  show ?thesis
  proof (cases "w \<in> set ts")
    case True
    with sep show ?thesis
      by (auto simp: separated_def s' Bind)
  next
    case False
    with sep a have "a \<notin> P" by (auto simp: separated_def)
    with sep False show ?thesis
      by (auto simp: separated_def s' Bind)
  qed
qed

lemma run_frame:
  assumes "separated P ts s" "no_source_write ts cs" "run cs s = Some s'"
  shows "\<forall>a \<in> P. heap s' a = heap s a"
  using assms
proof (induction cs arbitrary: ts s)
  case Nil
  then show ?case by simp
next
  case (Cons c cs)
  from Cons.prems(3) obtain s1 where s1: "exec c s = Some s1" and rest: "run cs s1 = Some s'"
    by (auto split: option.splits)
  from Cons.prems(2) have ok: "\<not> writes_alias ts c" and more: "no_source_write (aliases ts c) cs"
    by simp_all
  from exec_frame [OF Cons.prems(1) ok s1]
  have sep1: "separated P (aliases ts c) s1" and same: "\<forall>a \<in> P. heap s1 a = heap s a"
    by simp_all
  from Cons.IH [OF sep1 more rest] same show ?case by simp
qed

lemma run_append:
  "run (cs @ ds) s = (case run cs s of None \<Rightarrow> None | Some s' \<Rightarrow> run ds s')"
  by (induction cs arbitrary: s) (auto split: option.splits)

lemma no_source_write_append:
  "no_source_write ts (cs @ ds) \<longleftrightarrow>
     no_source_write ts cs \<and> no_source_write (fold (\<lambda>c ts. aliases ts c) cs ts) ds"
  by (induction cs arbitrary: ts) auto

lemma aliases_set: "set ts = set us \<Longrightarrow> set (aliases ts c) = set (aliases us c)"
  by (cases c) auto

lemma no_source_write_set:
  "set ts = set us \<Longrightarrow> no_source_write ts cs = no_source_write us cs"
proof (induction cs arbitrary: ts us)
  case Nil
  then show ?case by simp
next
  case (Cons c cs)
  from Cons.prems have "writes_alias ts c = writes_alias us c"
    by (cases c) auto
  moreover from Cons.prems have "set (aliases ts c) = set (aliases us c)"
    by (rule aliases_set)
  then have "no_source_write (aliases ts c) cs = no_source_write (aliases us c) cs"
    by (rule Cons.IH)
  ultimately show ?case by simp
qed

lemma no_source_write_apply_filters:
  "no_source_write ts (apply_filters_stmts f dst src)"
  by (simp add: apply_filters_stmts_def)

lemma fold_aliases_apply_filters:
  assumes "src \<in> set ts"
  shows "fold (\<lambda>c ts. aliases ts c) (apply_filters_stmts f dst src) ts =
         removeAll dst (removeAll ''df'' ts)"
  using assms by (simp add: apply_filters_stmts_def)

lemma fold_aliases_aggregation:
  "set (fold (\<lambda>c ts. aliases ts c) aggregation_stmts ts) =
     set ts - {''demo_d'', ''bio_d'', ''enr_d'', ''merged''}"
  by (auto simp: aggregation_stmts_def)

lemma no_source_write_aggregation: "no_source_write ts aggregation_stmts"
  by (simp add: aggregation_stmts_def)

lemma fold_aliases_filters_source:
  assumes "src \<in> set source_vars" "dst \<notin> set source_vars"
  shows "fold (\<lambda>c ts. aliases ts c) (apply_filters_stmts f dst src) source_vars = source_vars"
proof -
  have "''df'' \<notin> set source_vars" by (simp add: source_vars_def)
  with assms(2) have "removeAll dst (removeAll ''df'' source_vars) = source_vars"
    by simp
  with fold_aliases_apply_filters [OF assms(1)] show ?thesis by simp
qed

lemma script_aliases:
  "set (fold (\<lambda>c ts. aliases ts c) (script f) source_vars) = set source_vars"
proof -
  have b: "fold (\<lambda>c ts. aliases ts c) (apply_filters_stmts f ''biometric_f'' ''biometric'')
      source_vars = source_vars"
    by (rule fold_aliases_filters_source) (simp_all add: source_vars_def)
  have e: "fold (\<lambda>c ts. aliases ts c) (apply_filters_stmts f ''enrolment_f'' ''enrolment'')
      source_vars = source_vars"
    by (rule fold_aliases_filters_source) (simp_all add: source_vars_def)
  have d: "fold (\<lambda>c ts. aliases ts c) (apply_filters_stmts f ''demographic_f'' ''demographic'')
      source_vars = source_vars"
    by (rule fold_aliases_filters_source) (simp_all add: source_vars_def)
  have "fold (\<lambda>c ts. aliases ts c) (script f) source_vars =
        fold (\<lambda>c ts. aliases ts c) aggregation_stmts source_vars"
    unfolding script_def fold_append comp_def by (simp only: b e d)
  then have "set (fold (\<lambda>c ts. aliases ts c) (script f) source_vars) =
      set source_vars - {''demo_d'', ''bio_d'', ''enr_d'', ''merged''}"
    by (simp only: fold_aliases_aggregation)
  then show ?thesis by (simp add: source_vars_def)
qed

lemma script_no_source_write: "no_source_write ts (script f)"
  by (simp add: script_def no_source_write_append no_source_write_apply_filters
      no_source_write_aggregation)

lemma exec_Bind:
  assumes "env s w = Some a"
  shows "\<exists>s'. exec (Bind v w) s = Some s' \<and> env s' = (env s)(v \<mapsto> a) \<and>
    heap s' = heap s \<and> next_addr s' = next_addr s"
  using assms by simp

lemma exec_New:
  assumes "those (map (lookup s) args) = Some frs" "op frs = Some fr"
  shows "\<exists>s'. exec (New v args op) s = Some s' \<and> env s' = (env s)(v \<mapsto> next_addr s) \<and>
    heap s' = (heap s)(next_addr s \<mapsto> fr) \<and> next_addr s' = Suc (next_addr s)"
  using assms by simp

lemma exec_SetItem:
  assumes "env s v = Some a" "heap s a = Some fr" "op fr = Some fr'"
  shows "\<exists>s'. exec (SetItem v op) s = Some s' \<and> env s' = env s \<and>
    heap s' = (heap s)(a \<mapsto> fr') \<and> next_addr s' = next_addr s"
  using assms by simp

lemma run_apply_filters:
  assumes alloc: "\<forall>v a. env s v = Some a \<longrightarrow> a < next_addr s"
    and src: "lookup s src = Some fr"
    and ok: "apply_filters_frame f fr = Some fr'"
    and dst: "dst \<noteq> ''df''"
  shows "\<exists>s'. run (apply_filters_stmts f dst src) s = Some s' \<and>
           lookup s' dst = Some fr' \<and>
           (\<forall>v. v \<noteq> dst \<longrightarrow> v \<noteq> ''df'' \<longrightarrow> env s' v = env s v) \<and>
           (\<forall>a < next_addr s. heap s' a = heap s a) \<and>
           (\<forall>v a. env s' v = Some a \<longrightarrow> a < next_addr s') \<and>
           (\<exists>a. env s' dst = Some a \<and> next_addr s \<le> a) \<and>
           next_addr s \<le> next_addr s'"
proof -
  from src obtain a where a: "env s src = Some a" "heap s a = Some fr"
    by (auto simp: lookup_def split: option.splits)
  from alloc a have lt: "a < next_addr s" by blast
  from ok obtain fr1 where m1: "date_mask_op f [fr] = Some fr1"
    and m2: "(if sel_state f \<noteq> ''All'' then state_mask_op f [fr1] else Some fr1) = Some fr'"
    by (cases fr) (auto simp: apply_filters_def Let_def)
  from exec_Bind [where v = "''df''", OF a(1)] obtain s1 where s1: "exec (Bind ''df'' src) s = Some s1"
    "env s1 = (env s)(''df'' \<mapsto> a)" "heap s1 = heap s" "next_addr s1 = next_addr s"
    by blast
  have "those (map (lookup s1) [''df'']) = Some [fr]"
    by (simp add: lookup_def s1 a)
  from exec_New [where op = "date_mask_op f" and v = "''df''", OF this m1] obtain s2 where s2: "exec (New ''df'' [''df''] (date_mask_op f)) s1 = Some s2"
    "env s2 = (env s1)(''df'' \<mapsto> next_addr s1)"
    "heap s2 = (heap s1)(next_addr s1 \<mapsto> fr1)" "next_addr s2 = Suc (next_addr s1)"
    by blast
  show ?thesis
  proof (cases "sel_state f \<noteq> ''All''")
    case False
    with m2 have fr': "fr' = fr1" by simp
    have "env s2 ''df'' = Some (next_addr s)" by (simp add: s2 s1)
    from exec_Bind [where v = dst, OF this] obtain s3 where s3: "exec (Bind dst ''df'') s2 = Some s3"
      "env s3 = (env s2)(dst \<mapsto> next_addr s)" "heap s3 = heap s2" "next_addr s3 = next_addr s2"
      by blast
    have "run (apply_filters_stmts f dst src) s = Some s3"
      using False by (simp add: apply_filters_stmts_def s1(1) s2(1) s3(1) del: exec.simps)
    moreover have "lookup s3 dst = Some fr'" by (simp add: lookup_def fr' s3 s2 s1)
    moreover have "\<forall>v. v \<noteq> dst \<longrightarrow> v \<noteq> ''df'' \<longrightarrow> env s3 v = env s v"
      by (simp add: s3 s2 s1)
    moreover have "\<forall>a < next_addr s. heap s3 a = heap s a" by (simp add: s3 s2 s1)
    moreover have "\<forall>v a. env s3 v = Some a \<longrightarrow> a < next_addr s3"
      using alloc by (auto simp: s3 s2 s1 less_Suc_eq)
    moreover have "\<exists>a. env s3 dst = Some a \<and> next_addr s \<le> a" by (simp add: s3)
    moreover have "next_addr s \<le> next_addr s3" by (simp add: s3 s2 s1)
    ultimately show ?thesis by blast
  next
    case True
    with m2 have m2': "state_mask_op f [fr1] = Some fr'" by simp
    have "those (map (lookup s2) [''df'']) = Some [fr1]"
      by (simp add: lookup_def s2 s1)
    from exec_New [where op = "state_mask_op f" and v = "''df''", OF this m2'] obtain s3 where s3: "exec (New ''df'' [''df''] (state_mask_op f)) s2 = Some s3"
      "env s3 = (env s2)(''df'' \<mapsto> next_addr s2)"
      "heap s3 = (heap s2)(next_addr s2 \<mapsto> fr')" "next_addr s3 = Suc (next_addr s2)"
      by blast
    have "env s3 ''df'' = Some (Suc (next_addr s))" by (simp add: s3 s2 s1)
    from exec_Bind [where v = dst, OF this] obtain s4 where s4: "exec (Bind dst ''df'') s3 = Some s4"
      "env s4 = (env s3)(dst \<mapsto> Suc (next_addr s))" "heap s4 = heap s3"
      "next_addr s4 = next_addr s3"
      by blast
    have "run (apply_filters_stmts f dst src) s = Some s4"
      using True by (simp add: apply_filters_stmts_def s1(1) s2(1) s3(1) s4(1) del: exec.simps)
    moreover have "lookup s4 dst = Some fr'" by (simp add: lookup_def s4 s3 s2 s1)
    moreover have "\<forall>v. v \<noteq> dst \<longrightarrow> v \<noteq> ''df'' \<longrightarrow> env s4 v = env s v"
      by (simp add: s4 s3 s2 s1)
    moreover have "\<forall>a < next_addr s. heap s4 a = heap s a" by (simp add: s4 s3 s2 s1)
    moreover have "\<forall>v a. env s4 v = Some a \<longrightarrow> a < next_addr s4"
      using alloc by (auto simp: s4 s3 s2 s1 less_Suc_eq)
    moreover have "\<exists>a. env s4 dst = Some a \<and> next_addr s \<le> a" by (simp add: s4)
    moreover have "next_addr s \<le> next_addr s4" by (simp add: s4 s3 s2 s1)
    ultimately show ?thesis by blast
  qed
qed

lemma lookup_allocated:
  assumes "lookup s v = Some fr" "\<forall>v a. env s v = Some a \<longrightarrow> a < next_addr s"
  obtains a where "env s v = Some a" "heap s a = Some fr" "a < next_addr s"
  using assms by (auto simp: lookup_def split: option.splits)

lemma run_aggregation:
  assumes alloc: "\<forall>v a. env s v = Some a \<longrightarrow> a < next_addr s"
    and dfm: "lookup s ''demographic_f'' = Some (Demographic_frame d)"
    and bfm: "lookup s ''biometric_f'' = Some (Biometric_frame b)"
    and efm: "lookup s ''enrolment_f'' = Some (Enrolment_frame e)"
  shows "\<exists>s'. run aggregation_stmts s = Some s' \<and>
           lookup s' ''merged'' = Some (Merged_frame (merged d b e)) \<and>
           lookup s' ''demo_d'' = Some (Sums2_frame (demo_d d)) \<and>
           lookup s' ''bio_d'' = Some (Sums2_frame (bio_d b)) \<and>
           lookup s' ''enr_d'' = Some (Sums3_frame (enr_d e)) \<and>
           (\<forall>v. v \<notin> {''demo_d'', ''bio_d'', ''enr_d'', ''merged''} \<longrightarrow> env s' v = env s v) \<and>
           (\<forall>a < next_addr s. heap s' a = heap s a) \<and>
           (\<forall>v a. env s' v = Some a \<longrightarrow> a < next_addr s') \<and>
           (\<forall>v \<in> {''demo_d'', ''bio_d'', ''enr_d'', ''merged''}.
              \<exists>a. env s' v = Some a \<and> next_addr s \<le> a)"
proof -
  let ?n = "next_addr s"
  from dfm alloc obtain ad where ad: "env s ''demographic_f'' = Some ad"
    "heap s ad = Some (Demographic_frame d)" "ad < ?n"
    by (rule lookup_allocated)
  from bfm alloc obtain ab where ab: "env s ''biometric_f'' = Some ab"
    "heap s ab = Some (Biometric_frame b)" "ab < ?n"
    by (rule lookup_allocated)
  from efm alloc obtain ae where ae: "env s ''enrolment_f'' = Some ae"
    "heap s ae = Some (Enrolment_frame e)" "ae < ?n"
    by (rule lookup_allocated)
  have "those (map (lookup s) [''demographic_f'']) = Some [Demographic_frame d]"
    by (simp add: dfm)
  from exec_New [where op = demo_d_op and v = "''demo_d''", OF this]
  obtain s1 where s1: "exec (New ''demo_d'' [''demographic_f''] demo_d_op) s = Some s1"
    "env s1 = (env s)(''demo_d'' \<mapsto> ?n)"
    "heap s1 = (heap s)(?n \<mapsto> Sums2_frame (demo_d d))" "next_addr s1 = Suc ?n"
    by auto
  have "those (map (lookup s1) [''biometric_f'']) = Some [Biometric_frame b]"
    using ab by (simp add: lookup_def s1)
  from exec_New [where op = bio_d_op and v = "''bio_d''", OF this]
  obtain s2 where s2: "exec (New ''bio_d'' [''biometric_f''] bio_d_op) s1 = Some s2"
    "env s2 = (env s1)(''bio_d'' \<mapsto> Suc ?n)"
    "heap s2 = (heap s1)(Suc ?n \<mapsto> Sums2_frame (bio_d b))" "next_addr s2 = Suc (Suc ?n)"
    by (auto simp: s1)
  have "those (map (lookup s2) [''enrolment_f'']) = Some [Enrolment_frame e]"
    using ae by (simp add: lookup_def s2 s1)
  from exec_New [where op = enr_d_op and v = "''enr_d''", OF this]
  obtain s3 where s3: "exec (New ''enr_d'' [''enrolment_f''] enr_d_op) s2 = Some s3"
    "env s3 = (env s2)(''enr_d'' \<mapsto> Suc (Suc ?n))"
    "heap s3 = (heap s2)(Suc (Suc ?n) \<mapsto> Sums3_frame (enr_d e))"
    "next_addr s3 = Suc (Suc (Suc ?n))"
    by (auto simp: s2)
  have "those (map (lookup s3) [''demo_d'', ''bio_d'', ''enr_d'']) =
      Some [Sums2_frame (demo_d d), Sums2_frame (bio_d b), Sums3_frame (enr_d e)]"
    by (simp add: lookup_def s3 s2 s1)
  from exec_New [where op = merge_op and v = "''merged''", OF this]
  obtain s4 where s4:
    "exec (New ''merged'' [''demo_d'', ''bio_d'', ''enr_d''] merge_op) s3 = Some s4"
    "env s4 = (env s3)(''merged'' \<mapsto> Suc (Suc (Suc ?n)))"
    "heap s4 = (heap s3)(Suc (Suc (Suc ?n)) \<mapsto>
       Joined_frame (merge_d (demo_d d) (bio_d b) (enr_d e)))"
    "next_addr s4 = Suc (Suc (Suc (Suc ?n)))"
    by (auto simp: s3)
  let ?m = "Suc (Suc (Suc ?n))"
  let ?j = "merge_d (demo_d d) (bio_d b) (enr_d e)"
  have m4: "env s4 ''merged'' = Some ?m" "heap s4 ?m = Some (Joined_frame ?j)"
    by (simp_all add: s4)
  from exec_SetItem [where op = set_population_op, OF m4]
  obtain s5 where s5: "exec (SetItem ''merged'' set_population_op) s4 = Some s5"
    "env s5 = env s4" "heap s5 = (heap s4)(?m \<mapsto> Pop_frame (set_population ?j))"
    "next_addr s5 = next_addr s4"
    by auto
  have m5: "env s5 ''merged'' = Some ?m" "heap s5 ?m = Some (Pop_frame (set_population ?j))"
    by (simp_all add: s5 s4)
  from exec_SetItem [where op = set_biometrics_op, OF m5]
  obtain s6 where s6: "exec (SetItem ''merged'' set_biometrics_op) s5 = Some s6"
    "env s6 = env s5"
    "heap s6 = (heap s5)(?m \<mapsto> Pop_bio_frame (set_biometrics (set_population ?j)))"
    "next_addr s6 = next_addr s5"
    by auto
  have m6: "env s6 ''merged'' = Some ?m"
    "heap s6 ?m = Some (Pop_bio_frame (set_biometrics (set_population ?j)))"
    by (simp_all add: s6 s5 s4)
  from exec_SetItem [where op = set_enrolments_op, OF m6]
  obtain s7 where s7: "exec (SetItem ''merged'' set_enrolments_op) s6 = Some s7"
    "env s7 = env s6"
    "heap s7 = (heap s6)(?m \<mapsto> Merged_frame (joined d b e))"
    "next_addr s7 = next_addr s6"
    by (auto simp: joined_def)
  have "those (map (lookup s7) [''merged'']) = Some [Merged_frame (joined d b e)]"
    by (simp add: lookup_def s7 s6 s5 s4)
  from exec_New [where op = population_floor_op and v = "''merged''", OF this]
  obtain s8 where s8: "exec (New ''merged'' [''merged''] population_floor_op) s7 = Some s8"
    "env s8 = (env s7)(''merged'' \<mapsto> Suc ?m)"
    "heap s8 = (heap s7)(Suc ?m \<mapsto> Merged_frame (merged d b e))"
    "next_addr s8 = Suc (Suc ?m)"
    by (auto simp: merged_def s7 s6 s5 s4)
  note envs = s8(2) s7(2) s6(2) s5(2) s4(2) s3(2) s2(2) s1(2)
  note heaps = s8(3) s7(3) s6(3) s5(3) s4(3) s3(3) s2(3) s1(3)
  have "run aggregation_stmts s = Some s8"
    by (simp add: aggregation_stmts_def s1(1) s2(1) s3(1) s4(1) s5(1) s6(1) s7(1) s8(1)
        del: exec.simps)
  moreover have "lookup s8 ''merged'' = Some (Merged_frame (merged d b e))"
    by (simp add: lookup_def s8)
  moreover have "lookup s8 ''demo_d'' = Some (Sums2_frame (demo_d d))"
    "lookup s8 ''bio_d'' = Some (Sums2_frame (bio_d b))"
    "lookup s8 ''enr_d'' = Some (Sums3_frame (enr_d e))"
    by (simp_all add: lookup_def envs heaps)
  moreover have "\<forall>v. v \<notin> {''demo_d'', ''bio_d'', ''enr_d'', ''merged''} \<longrightarrow> env s8 v = env s v"
    by (simp add: envs)
  moreover have "\<forall>a < ?n. heap s8 a = heap s a"
    by (simp add: heaps)
  moreover have "\<forall>v a. env s8 v = Some a \<longrightarrow> a < next_addr s8"
    using alloc by (auto simp: envs s8(4) less_Suc_eq split: if_splits)
  moreover have "\<forall>v \<in> {''demo_d'', ''bio_d'', ''enr_d'', ''merged''}.
      \<exists>a. env s8 v = Some a \<and> ?n \<le> a"
    by (simp add: envs)
  ultimately show ?thesis by blast
qed

lemma lookup_preserved:
  assumes "lookup s v = Some fr" "\<forall>v a. env s v = Some a \<longrightarrow> a < next_addr s"
    and "env s' v = env s v" "\<forall>a < next_addr s. heap s' a = heap s a"
  shows "lookup s' v = Some fr"
proof -
  from assms(1,2) obtain a where "env s v = Some a" "heap s a = Some fr" "a < next_addr s"
    by (rule lookup_allocated)
  with assms(3,4) show ?thesis by (simp add: lookup_def)
qed

lemma run_script:
  assumes alloc: "\<forall>v a. env s v = Some a \<longrightarrow> a < next_addr s"
    and bio: "lookup s ''biometric'' = Some (Biometric_frame biometric)"
    and enr: "lookup s ''enrolment'' = Some (Enrolment_frame enrolment)"
    and demo: "lookup s ''demographic'' = Some (Demographic_frame demographic)"
  shows "\<exists>s'. run (script f) s = Some s' \<and>
     (\<forall>v \<in> set source_vars. env s' v = env s v) \<and>
     (\<forall>a < next_addr s. heap s' a = heap s a) \<and>
     lookup s' ''biometric_f'' = Some (Biometric_frame (apply_filters f biometric)) \<and>
     lookup s' ''enrolment_f'' = Some (Enrolment_frame (apply_filters f enrolment)) \<and>
     lookup s' ''demographic_f'' = Some (Demographic_frame (apply_filters f demographic)) \<and>
     lookup s' ''merged'' =
       Some (Merged_frame (merged (apply_filters f demographic) (apply_filters f biometric)
                                  (apply_filters f enrolment))) \<and>
     (\<forall>v \<in> {''biometric_f'', ''enrolment_f'', ''demographic_f'',
              ''demo_d'', ''bio_d'', ''enr_d'', ''merged''}.
        \<exists>a. env s' v = Some a \<and> next_addr s \<le> a)"
proof -
  have fb: "apply_filters_frame f (Biometric_frame biometric) =
      Some (Biometric_frame (apply_filters f biometric))" by simp
  have fe: "apply_filters_frame f (Enrolment_frame enrolment) =
      Some (Enrolment_frame (apply_filters f enrolment))" by simp
  have fd: "apply_filters_frame f (Demographic_frame demographic) =
      Some (Demographic_frame (apply_filters f demographic))" by simp
  have df: "''biometric_f'' \<noteq> ''df''" "''enrolment_f'' \<noteq> ''df''" "''demographic_f'' \<noteq> ''df''"
    by simp_all
  \<comment> \<open>biometric_f = apply_filters(biometric)\<close>
  from run_apply_filters [OF alloc bio fb df(1)]
  obtain s1 where r1: "run (apply_filters_stmts f ''biometric_f'' ''biometric'') s = Some s1"
    and l1: "lookup s1 ''biometric_f'' = Some (Biometric_frame (apply_filters f biometric))"
    and e1: "\<forall>v. v \<noteq> ''biometric_f'' \<longrightarrow> v \<noteq> ''df'' \<longrightarrow> env s1 v = env s v"
    and h1: "\<forall>a < next_addr s. heap s1 a = heap s a"
    and a1: "\<forall>v a. env s1 v = Some a \<longrightarrow> a < next_addr s1"
    and n1: "\<exists>a. env s1 ''biometric_f'' = Some a \<and> next_addr s \<le> a"
    and m1: "next_addr s \<le> next_addr s1"
    by blast
  from e1 have ee1: "env s1 ''enrolment'' = env s ''enrolment''" by simp
  have enr1: "lookup s1 ''enrolment'' = Some (Enrolment_frame enrolment)"
    by (rule lookup_preserved [OF enr alloc ee1 h1])
  \<comment> \<open>enrolment_f = apply_filters(enrolment)\<close>
  from run_apply_filters [OF a1 enr1 fe df(2)]
  obtain s2 where r2: "run (apply_filters_stmts f ''enrolment_f'' ''enrolment'') s1 = Some s2"
    and l2: "lookup s2 ''enrolment_f'' = Some (Enrolment_frame (apply_filters f enrolment))"
    and e2: "\<forall>v. v \<noteq> ''enrolment_f'' \<longrightarrow> v \<noteq> ''df'' \<longrightarrow> env s2 v = env s1 v"
    and h2: "\<forall>a < next_addr s1. heap s2 a = heap s1 a"
    and a2: "\<forall>v a. env s2 v = Some a \<longrightarrow> a < next_addr s2"
    and n2: "\<exists>a. env s2 ''enrolment_f'' = Some a \<and> next_addr s1 \<le> a"
    and m2: "next_addr s1 \<le> next_addr s2"
    by blast
  have h02: "\<forall>a < next_addr s. heap s2 a = heap s a"
  proof (intro allI impI)
    fix a assume a: "a < next_addr s"
    with m1 have "a < next_addr s1" by simp
    with h2 have "heap s2 a = heap s1 a" by simp
    also from h1 a have "\<dots> = heap s a" by simp
    finally show "heap s2 a = heap s a" .
  qed
  from e1 e2 have ee2: "env s2 ''demographic'' = env s ''demographic''" by simp
  have demo2: "lookup s2 ''demographic'' = Some (Demographic_frame demographic)"
    by (rule lookup_preserved [OF demo alloc ee2 h02])
  \<comment> \<open>demographic_f = apply_filters(demographic)\<close>
  from run_apply_filters [OF a2 demo2 fd df(3)]
  obtain s3 where r3: "run (apply_filters_stmts f ''demographic_f'' ''demographic'') s2 = Some s3"
    and l3: "lookup s3 ''demographic_f'' = Some (Demographic_frame (apply_filters f demographic))"
    and e3: "\<forall>v. v \<noteq> ''demographic_f'' \<longrightarrow> v \<noteq> ''df'' \<longrightarrow> env s3 v = env s2 v"
    and h3: "\<forall>a < next_addr s2. heap s3 a = heap s2 a"
    and a3: "\<forall>v a. env s3 v = Some a \<longrightarrow> a < next_addr s3"
    and n3: "\<exists>a. env s3 ''demographic_f'' = Some a \<and> next_addr s2 \<le> a"
    and m3: "next_addr s2 \<le> next_addr s3"
    by blast
  have h03: "\<forall>a < next_addr s. heap s3 a = heap s a"
  proof (intro allI impI)
    fix a assume a: "a < next_addr s"
    with m1 m2 have "a < next_addr s2" by simp
    with h3 have "heap s3 a = heap s2 a" by simp
    also from h02 a have "\<dots> = heap s a" by simp
    finally show "heap s3 a = heap s a" .
  qed
  from e2 have eb2: "env s2 ''biometric_f'' = env s1 ''biometric_f''" by simp
  have bf2: "lookup s2 ''biometric_f'' = Some (Biometric_frame (apply_filters f biometric))"
    by (rule lookup_preserved [OF l1 a1 eb2 h2])
  from e3 have eb3: "env s3 ''biometric_f'' = env s2 ''biometric_f''" by simp
  have bf3: "lookup s3 ''biometric_f'' = Some (Biometric_frame (apply_filters f biometric))"
    by (rule lookup_preserved [OF bf2 a2 eb3 h3])
  from e3 have ef3': "env s3 ''enrolment_f'' = env s2 ''enrolment_f''" by simp
  have ef3: "lookup s3 ''enrolment_f'' = Some (Enrolment_frame (apply_filters f enrolment))"
    by (rule lookup_preserved [OF l2 a2 ef3' h3])
  \<comment> \<open>lines 145-155\<close>
  from run_aggregation [OF a3 l3 bf3 ef3]
  obtain s4 where r4: "run aggregation_stmts s3 = Some s4"
    and l4: "lookup s4 ''merged'' =
       Some (Merged_frame (merged (apply_filters f demographic) (apply_filters f biometric)
                                  (apply_filters f enrolment)))"
    and e4: "\<forall>v. v \<notin> {''demo_d'', ''bio_d'', ''enr_d'', ''merged''} \<longrightarrow> env s4 v = env s3 v"
    and h4: "\<forall>a < next_addr s3. heap s4 a = heap s3 a"
    and n4: "\<forall>v \<in> {''demo_d'', ''bio_d'', ''enr_d'', ''merged''}.
              \<exists>a. env s4 v = Some a \<and> next_addr s3 \<le> a"
    by blast
  have run: "run (script f) s = Some s4"
    by (simp add: script_def run_append r1 r2 r3 r4)
  have env_src: "\<forall>v \<in> set source_vars. env s4 v = env s v"
    using e1 e2 e3 e4 by (simp add: source_vars_def)
  have heap_old: "\<forall>a < next_addr s. heap s4 a = heap s a"
  proof (intro allI impI)
    fix a assume a: "a < next_addr s"
    with m1 m2 m3 have "a < next_addr s3" by simp
    with h4 have "heap s4 a = heap s3 a" by simp
    also from h03 a have "\<dots> = heap s a" by simp
    finally show "heap s4 a = heap s a" .
  qed
  from e4 have eb4: "env s4 ''biometric_f'' = env s3 ''biometric_f''" by simp
  have bf4: "lookup s4 ''biometric_f'' = Some (Biometric_frame (apply_filters f biometric))"
    by (rule lookup_preserved [OF bf3 a3 eb4 h4])
  from e4 have ee4: "env s4 ''enrolment_f'' = env s3 ''enrolment_f''" by simp
  have ef4: "lookup s4 ''enrolment_f'' = Some (Enrolment_frame (apply_filters f enrolment))"
    by (rule lookup_preserved [OF ef3 a3 ee4 h4])
  from e4 have ed4: "env s4 ''demographic_f'' = env s3 ''demographic_f''" by simp
  have df4: "lookup s4 ''demographic_f'' = Some (Demographic_frame (apply_filters f demographic))"
    by (rule lookup_preserved [OF l3 a3 ed4 h4])
  from n1 obtain b1 where b1: "env s1 ''biometric_f'' = Some b1" "next_addr s \<le> b1" by blast
  from n2 obtain b2 where b2: "env s2 ''enrolment_f'' = Some b2" "next_addr s1 \<le> b2" by blast
  from n3 obtain b3 where b3: "env s3 ''demographic_f'' = Some b3" "next_addr s2 \<le> b3" by blast
  have new1: "\<exists>a. env s4 ''biometric_f'' = Some a \<and> next_addr s \<le> a"
    using b1 by (simp add: eb4 eb3 eb2)
  have new2: "\<exists>a. env s4 ''enrolment_f'' = Some a \<and> next_addr s \<le> a"
    using b2 m1 by (simp add: ee4 ef3')
  have new3: "\<exists>a. env s4 ''demographic_f'' = Some a \<and> next_addr s \<le> a"
    using b3 m1 m2 by (simp add: ed4)
  have new4: "\<exists>a. env s4 v = Some a \<and> next_addr s \<le> a"
    if "v \<in> {''demo_d'', ''bio_d'', ''enr_d'', ''merged''}" for v
  proof -
    from n4 that obtain a where "env s4 v = Some a" "next_addr s3 \<le> a" by blast
    with m1 m2 m3 show ?thesis by simp
  qed
  have new: "\<forall>v \<in> {''biometric_f'', ''enrolment_f'', ''demographic_f'',
              ''demo_d'', ''bio_d'', ''enr_d'', ''merged''}.
        \<exists>a. env s4 v = Some a \<and> next_addr s \<le> a"
    using new1 new2 new3 new4 by blast
  from run env_src heap_old bf4 ef4 df4 l4 new show ?thesis by blast
qed

text \<open>
  C9. Started in a store where the three source variables name allocated frames that no
  other variable names, the filter and aggregation statements run to the end, and then
  \<^item> the three source variables name the same objects, whose contents are unchanged;
  \<^item> every stage's result (the three filtered tables, the three grouped sums and
    \<open>merged\<close>) is an object allocated during the run, so a new table, and it holds what
    the stage computes;
  \<^item> whatever statements follow, as long as none of them assigns a column of a variable
    that names a source object, the contents of the source objects stay unchanged.
\<close>

theorem source_tables_not_mutated:
  assumes alloc: "\<forall>v a. env s v = Some a \<longrightarrow> a < next_addr s"
    and bio: "lookup s ''biometric'' = Some (Biometric_frame biometric)"
    and enr: "lookup s ''enrolment'' = Some (Enrolment_frame enrolment)"
    and demo: "lookup s ''demographic'' = Some (Demographic_frame demographic)"
    and only: "\<forall>v w a. env s v = Some a \<and> env s w = Some a \<and> w \<in> set source_vars
                 \<longrightarrow> v \<in> set source_vars"
  shows "(\<exists>s'. run (script f) s = Some s' \<and>
           (\<forall>v \<in> set source_vars. env s' v = env s v \<and> lookup s' v = lookup s v) \<and>
           lookup s' ''biometric_f'' = Some (Biometric_frame (apply_filters f biometric)) \<and>
           lookup s' ''enrolment_f'' = Some (Enrolment_frame (apply_filters f enrolment)) \<and>
           lookup s' ''demographic_f'' = Some (Demographic_frame (apply_filters f demographic)) \<and>
           lookup s' ''merged'' =
             Some (Merged_frame (merged (apply_filters f demographic) (apply_filters f biometric)
                                        (apply_filters f enrolment))) \<and>
           (\<forall>v \<in> {''biometric_f'', ''enrolment_f'', ''demographic_f'',
                    ''demo_d'', ''bio_d'', ''enr_d'', ''merged''}.
              \<exists>a. env s' v = Some a \<and> next_addr s \<le> a)) \<and>
         (\<forall>rest s''. no_source_write source_vars rest \<and> run (script f @ rest) s = Some s''
            \<longrightarrow> (\<forall>v \<in> set source_vars. \<forall>a. env s v = Some a \<longrightarrow> heap s'' a = heap s a))"
proof (intro conjI allI impI)
  from run_script [OF alloc bio enr demo, of f]
  obtain s' where run: "run (script f) s = Some s'"
    and env_src: "\<forall>v \<in> set source_vars. env s' v = env s v"
    and heap_old: "\<forall>a < next_addr s. heap s' a = heap s a"
    and rest: "lookup s' ''biometric_f'' = Some (Biometric_frame (apply_filters f biometric))"
      "lookup s' ''enrolment_f'' = Some (Enrolment_frame (apply_filters f enrolment))"
      "lookup s' ''demographic_f'' = Some (Demographic_frame (apply_filters f demographic))"
      "lookup s' ''merged'' =
         Some (Merged_frame (merged (apply_filters f demographic) (apply_filters f biometric)
                                    (apply_filters f enrolment)))"
      "\<forall>v \<in> {''biometric_f'', ''enrolment_f'', ''demographic_f'',
                ''demo_d'', ''bio_d'', ''enr_d'', ''merged''}.
          \<exists>a. env s' v = Some a \<and> next_addr s \<le> a"
    by blast
  have "lookup s' v = lookup s v" if v: "v \<in> set source_vars" for v
  proof (cases "env s v")
    case None
    with env_src v show ?thesis by (simp add: lookup_def)
  next
    case (Some a)
    with alloc have "a < next_addr s" by blast
    with heap_old have "heap s' a = heap s a" by blast
    with env_src v Some show ?thesis by (simp add: lookup_def)
  qed
  with env_src have "\<forall>v \<in> set source_vars. env s' v = env s v \<and> lookup s' v = lookup s v"
    by blast
  with run rest
  show "\<exists>s'. run (script f) s = Some s' \<and>
           (\<forall>v \<in> set source_vars. env s' v = env s v \<and> lookup s' v = lookup s v) \<and>
           lookup s' ''biometric_f'' = Some (Biometric_frame (apply_filters f biometric)) \<and>
           lookup s' ''enrolment_f'' = Some (Enrolment_frame (apply_filters f enrolment)) \<and>
           lookup s' ''demographic_f'' = Some (Demographic_frame (apply_filters f demographic)) \<and>
           lookup s' ''merged'' =
             Some (Merged_frame (merged (apply_filters f demographic) (apply_filters f biometric)
                                        (apply_filters f enrolment))) \<and>
           (\<forall>v \<in> {''biometric_f'', ''enrolment_f'', ''demographic_f'',
                    ''demo_d'', ''bio_d'', ''enr_d'', ''merged''}.
              \<exists>a. env s' v = Some a \<and> next_addr s \<le> a)"
    by blast
next
  fix rest s''
  assume "no_source_write source_vars rest \<and> run (script f @ rest) s = Some s''"
  then have nsw: "no_source_write source_vars rest"
    and run: "run (script f @ rest) s = Some s''"
    by simp_all
  define P where "P = {a. \<exists>w \<in> set source_vars. env s w = Some a}"
  have sep: "separated P source_vars s"
    unfolding separated_def P_def using only alloc by blast
  from nsw have "no_source_write (fold (\<lambda>c ts. aliases ts c) (script f) source_vars) rest"
    using no_source_write_set [OF script_aliases] by simp
  then have "no_source_write source_vars (script f @ rest)"
    by (simp add: no_source_write_append script_no_source_write)
  from run_frame [OF sep this run] have frame: "\<forall>a \<in> P. heap s'' a = heap s a" .
  show "\<forall>v \<in> set source_vars. \<forall>a. env s v = Some a \<longrightarrow> heap s'' a = heap s a"
  proof (intro ballI allI impI)
    fix v a assume "v \<in> set source_vars" "env s v = Some a"
    then have "a \<in> P" unfolding P_def by blast
    with frame show "heap s'' a = heap s a" by blast
  qed
qed

theorem source_tables_not_mutated_witness:
  "lookup ex_store ''biometric'' = Some (Biometric_frame ex_bio3) \<and>
   lookup ex_store ''enrolment'' = Some (Enrolment_frame ex_enr3) \<and>
   lookup ex_store ''demographic'' = Some (Demographic_frame ex_demo3) \<and>
   next_addr ex_store = 3 \<and>
   (\<exists>s'. run (script ex_filters) ex_store = Some s' \<and>
      lookup s' ''biometric'' = Some (Biometric_frame ex_bio3) \<and>
      lookup s' ''enrolment'' = Some (Enrolment_frame ex_enr3) \<and>
      lookup s' ''demographic'' = Some (Demographic_frame ex_demo3) \<and>
      lookup s' ''biometric_f'' = Some (Biometric_frame (apply_filters ex_filters ex_bio3)) \<and>
      lookup s' ''merged'' =
        Some (Merged_frame (merged (apply_filters ex_filters ex_demo3)
               (apply_filters ex_filters ex_bio3) (apply_filters ex_filters ex_enr3))))"
proof -
  have alloc: "\<forall>v a. env ex_store v = Some a \<longrightarrow> a < next_addr ex_store"
    by (simp add: ex_store_def)
  have bio: "lookup ex_store ''biometric'' = Some (Biometric_frame ex_bio3)"
    and enr: "lookup ex_store ''enrolment'' = Some (Enrolment_frame ex_enr3)"
    and demo: "lookup ex_store ''demographic'' = Some (Demographic_frame ex_demo3)"
    and nxt: "next_addr ex_store = 3"
    by (simp_all add: ex_store_def lookup_def)
  have only: "\<forall>v w a. env ex_store v = Some a \<and> env ex_store w = Some a \<and>
      w \<in> set source_vars \<longrightarrow> v \<in> set source_vars"
    by (simp add: ex_store_def source_vars_def)
  from source_tables_not_mutated [OF alloc bio enr demo only, of ex_filters]
  obtain s' where run: "run (script ex_filters) ex_store = Some s'"
    and src: "\<forall>v \<in> set source_vars. env s' v = env ex_store v \<and> lookup s' v = lookup ex_store v"
    and res: "lookup s' ''biometric_f'' = Some (Biometric_frame (apply_filters ex_filters ex_bio3))"
      "lookup s' ''merged'' =
        Some (Merged_frame (merged (apply_filters ex_filters ex_demo3)
               (apply_filters ex_filters ex_bio3) (apply_filters ex_filters ex_enr3)))"
    by blast
  from src bio enr demo have "lookup s' ''biometric'' = Some (Biometric_frame ex_bio3)"
    "lookup s' ''enrolment'' = Some (Enrolment_frame ex_enr3)"
    "lookup s' ''demographic'' = Some (Demographic_frame ex_demo3)"
    by (simp_all add: source_vars_def)
  with run res bio enr demo nxt show ?thesis by blast
qed

end
